theory Spec2Isabelle
  imports Main "HOL-Library.Word"
begin

section \<open>Machine model\<close>

text \<open>
  The allocators are C++ templates for a POSIX system (the shared allocator needs
  \<^verbatim>\<open>shm_open\<close>, \<^verbatim>\<open>mmap\<close> and unnamed semaphores). The embedding fixes the LP64
  data model of x86-64 Linux: \<^verbatim>\<open>size_t\<close> and pointers are 64-bit words whose
  arithmetic wraps around, \<^verbatim>\<open>unsigned int\<close> is a 32-bit word,
  \<^verbatim>\<open>sizeof(max_align_t) = 32\<close>, hence \<^verbatim>\<open>sizeof(block_h) = 32\<close>, and
  \<^verbatim>\<open>sizeof(allocator_info_t) = 40\<close> (five 8-byte fields).
  \<^verbatim>\<open>sizeof(T)\<close> of the template parameter is an argument of the operations that use it.
\<close>

type_synonym addr = "64 word"
type_synonym size_t = "64 word"

definition unit_size :: size_t where
  "unit_size = 32"

definition sizeof_allocator_info_t :: size_t where
  "sizeof_allocator_info_t = 40"

text \<open>
  Exceptions and faults are values. \<open>Segmentation_Fault\<close> stands for the dereference of
  a null pointer (or of a header pointer under which no header is installed or mapped),
  which the source does not guard against. It is the outcome where the pointer that is
  dereferenced is a header pointer, a list pointer followed by one of the two search
  loops or by \<^verbatim>\<open>unified\<close>, or the buffer address given to the constructor; every other
  access reads or writes the cell at its address.
\<close>

datatype error =
    Bad_Alloc
  | Invalid_Argument string
  | Runtime_Error string
  | System_Error string
  | Segmentation_Fault

section \<open>Static allocator: data\<close>

text \<open>\<^verbatim>\<open>union block_h\<close>: the fields \<^verbatim>\<open>d.next\<close> and \<^verbatim>\<open>d.size\<close>.\<close>

record block_h =
  d_next :: addr
  d_size :: size_t

record allocator_info_t =
  static_memory_map :: addr
  free_memory_map :: addr
  capacity :: size_t
  free_size :: size_t
  free_list :: addr

text \<open>
  The memory the allocator interprets: the allocator headers installed at the front of
  buffers and the block headers, each keyed by its address. Block headers at different
  addresses are different cells; the allocator itself only ever creates headers at
  \<^verbatim>\<open>free_memory_map + k * sizeof(block_h)\<close>, which do not overlap.
\<close>

record memory =
  info_at :: "addr \<rightharpoonup> allocator_info_t"
  block_at :: "addr \<Rightarrow> block_h"

text \<open>The class \<^verbatim>\<open>Static_Allocator<T>\<close> has one member, the pointer to the header.\<close>

record static_allocator =
  d_allocator_info_p :: addr

definition set_next :: "memory \<Rightarrow> addr \<Rightarrow> addr \<Rightarrow> memory" where
  "set_next m p v = m\<lparr>block_at := (block_at m)(p := (block_at m p)\<lparr>d_next := v\<rparr>)\<rparr>"

definition set_size :: "memory \<Rightarrow> addr \<Rightarrow> size_t \<Rightarrow> memory" where
  "set_size m p v = m\<lparr>block_at := (block_at m)(p := (block_at m p)\<lparr>d_size := v\<rparr>)\<rparr>"

definition set_info :: "memory \<Rightarrow> addr \<Rightarrow> allocator_info_t \<Rightarrow> memory" where
  "set_info m p a = m\<lparr>info_at := (info_at m)(p \<mapsto> a)\<rparr>"

abbreviation next_of :: "memory \<Rightarrow> addr \<Rightarrow> addr" where
  "next_of m p \<equiv> d_next (block_at m p)"

abbreviation size_of :: "memory \<Rightarrow> addr \<Rightarrow> size_t" where
  "size_of m p \<equiv> d_size (block_at m p)"

section \<open>Static allocator: operations\<close>

definition minimum_memory_size :: size_t where
  "minimum_memory_size = sizeof_allocator_info_t + 2 * unit_size"

text \<open>Constructor \<^verbatim>\<open>Static_Allocator (void *static_memory_map, size_t capacity)\<close>.\<close>

definition Static_Allocator ::
  "addr \<Rightarrow> size_t \<Rightarrow> memory \<Rightarrow> (error + static_allocator) \<times> memory" where
  "Static_Allocator buf cap m =
     (if cap < minimum_memory_size then (Inl Bad_Alloc, m)
      else if buf = 0 then (Inl Segmentation_Fault, m)
      else (Inr \<lparr>d_allocator_info_p = buf\<rparr>,
            set_info m buf
              \<lparr>static_memory_map = buf,
               free_memory_map = buf + minimum_memory_size - 2 * unit_size,
               capacity = cap,
               free_size = cap - minimum_memory_size,
               free_list = 0\<rparr>))"

text \<open>Copy constructor: the pointer is copied, nothing else.\<close>

definition Static_Allocator_copy :: "static_allocator \<Rightarrow> static_allocator" where
  "Static_Allocator_copy origin = \<lparr>d_allocator_info_p = d_allocator_info_p origin\<rparr>"

text \<open>
  The search loop of \<^verbatim>\<open>allocate_b\<close>:
  \<^verbatim>\<open>for (curr = last->d.next; ; last = curr, curr = curr->d.next)\<close>.
  It returns from inside the loop, either with the pointer behind the header of the
  block it took or with \<^verbatim>\<open>NULL\<close> (the word 0). On a list that is not circular
  it need not return: the result \<open>None\<close> is the loop that runs forever.
\<close>

partial_function (option) allocate_loop ::
  "addr \<Rightarrow> allocator_info_t \<Rightarrow> size_t \<Rightarrow> addr \<Rightarrow> addr \<Rightarrow> memory
     \<Rightarrow> ((error + addr) \<times> memory) option" where
  "allocate_loop ip a n_blocks lastp currp m =
     (if currp = 0 then Some (Inl Segmentation_Fault, m)
      else if size_of m currp \<ge> n_blocks then
        (if size_of m currp = n_blocks then
           (let m1 = set_next m lastp (next_of m currp);
                a' = a\<lparr>free_list := lastp,
                       free_size := free_size a - n_blocks * unit_size\<rparr>
            in Some (Inr (currp + unit_size), set_info m1 ip a'))
         else
           (let m1 = set_size m currp (size_of m currp - n_blocks);
                currp' = currp + size_of m1 currp * unit_size;
                m2 = set_size m1 currp' n_blocks;
                a' = a\<lparr>free_list := lastp,
                       free_size := free_size a - n_blocks * unit_size\<rparr>
            in Some (Inr (currp' + unit_size), set_info m2 ip a')))
      else if currp = free_list a then Some (Inr 0, m)
      else allocate_loop ip a n_blocks currp (next_of m currp) m)"

declare allocate_loop.simps [code]

text \<open>\<^verbatim>\<open>void_pointer allocate_b (size_t n_bytes)\<close>.\<close>

definition allocate_b ::
  "static_allocator \<Rightarrow> size_t \<Rightarrow> memory \<Rightarrow> ((error + addr) \<times> memory) option" where
  "allocate_b this n_bytes m =
     (let ip = d_allocator_info_p this in
      if ip = 0 then Some (Inl (Invalid_Argument ''Uninitialized static memory''), m)
      else case info_at m ip of
        None \<Rightarrow> Some (Inl Segmentation_Fault, m)
      | Some a \<Rightarrow>
          if static_memory_map a = 0
          then Some (Inl (Invalid_Argument ''Uninitialized static memory''), m)
          else if n_bytes = 0
          then Some (Inl (Invalid_Argument ''Cannot allocate zero bytes''), m)
          else
            (let n_blocks = (n_bytes + unit_size - 1) div unit_size + 1 in
             if n_blocks * unit_size > free_size a then Some (Inr 0, m)
             else if free_list a = 0 then
               (let head = free_memory_map a;
                    m1 = set_size m head 0;
                    init = head + unit_size;
                    m2 = set_size m1 init (free_size a div unit_size);
                    a' = a\<lparr>free_list := head\<rparr>;
                    m3 = set_info (set_next m2 init head) ip a';
                    m4 = set_next m3 head init
                in allocate_loop ip a' n_blocks head (next_of m4 head) m4)
             else allocate_loop ip a n_blocks (free_list a)
                    (next_of m (free_list a)) m))"

text \<open>\<^verbatim>\<open>pointer allocate (size_type n_obj)\<close>: the byte count is a \<^verbatim>\<open>size_t\<close> product.\<close>

definition allocate ::
  "size_t \<Rightarrow> static_allocator \<Rightarrow> size_t \<Rightarrow> memory
     \<Rightarrow> ((error + addr) \<times> memory) option" where
  "allocate sizeof_T this n_obj m = allocate_b this (n_obj * sizeof_T) m"

text \<open>
  The neighbour search of \<^verbatim>\<open>deallocate\<close>:
  \<^verbatim>\<open>for (p = free_list; !(b >= p && b < p->d.next); p = p->d.next)\<close> with its two
  \<^verbatim>\<open>break\<close>s. Every iteration reads \<^verbatim>\<open>p->d.next\<close>, so a null \<open>p\<close> is a fault.
\<close>

partial_function (option) locate :: "memory \<Rightarrow> addr \<Rightarrow> addr \<Rightarrow> (error + addr) option" where
  "locate m b p =
     (if p = 0 then Some (Inl Segmentation_Fault)
      else if b \<ge> p \<and> b < next_of m p then Some (Inr p)
      else if p \<ge> next_of m p \<and> b > p then Some (Inr p)
      else if p \<ge> next_of m p \<and> b < next_of m p then Some (Inr p)
      else locate m b (next_of m p))"

declare locate.simps [code]

text \<open>The bounds check of \<^verbatim>\<open>deallocate\<close>, as the source computes it.\<close>

definition in_bounds :: "size_t \<Rightarrow> allocator_info_t \<Rightarrow> addr \<Rightarrow> size_t \<Rightarrow> bool" where
  "in_bounds sizeof_T a ptr n_obj =
     (let obj_addr_start = ptr;
          obj_addr_end = obj_addr_start + n_obj * sizeof_T;
          static_addr_start = static_memory_map a;
          static_addr_end = static_addr_start + capacity a
      in obj_addr_start > static_addr_start \<and> obj_addr_end \<le> static_addr_end)"

text \<open>The two merge steps and the bookkeeping after the insertion point is known.\<close>

definition merge_forward :: "memory \<Rightarrow> addr \<Rightarrow> addr \<Rightarrow> memory" where
  "merge_forward m b p =
     (if b + size_of m b * unit_size = next_of m p then
        (let m1 = set_size m b (size_of m b + size_of m (next_of m p))
         in set_next m1 b (next_of m1 (next_of m1 p)))
      else set_next m b (next_of m p))"

definition merge_backward :: "memory \<Rightarrow> addr \<Rightarrow> addr \<Rightarrow> memory" where
  "merge_backward m b p =
     (if p + size_of m p * unit_size = b then
        (let m1 = set_size m p (size_of m p + size_of m b)
         in set_next m1 p (next_of m1 b))
      else set_next m p b)"

text \<open>\<^verbatim>\<open>void deallocate (pointer ptr, size_type n_obj)\<close>.\<close>

definition deallocate ::
  "size_t \<Rightarrow> static_allocator \<Rightarrow> addr \<Rightarrow> size_t \<Rightarrow> memory
     \<Rightarrow> ((error + unit) \<times> memory) option" where
  "deallocate sizeof_T this ptr n_obj m =
     (if ptr = 0 then Some (Inl (Invalid_Argument ''Cannot free nullptr!''), m)
      else case info_at m (d_allocator_info_p this) of
        None \<Rightarrow> Some (Inl Segmentation_Fault, m)
      | Some a \<Rightarrow>
          if \<not> in_bounds sizeof_T a ptr n_obj
          then Some (Inl (Invalid_Argument ''Pointer originates outside valid bounds''), m)
          else
            (let b = ptr - unit_size in
             case locate m b (free_list a) of
               None \<Rightarrow> None
             | Some (Inl e) \<Rightarrow> Some (Inl e, m)
             | Some (Inr p) \<Rightarrow>
                 (let m1 = merge_forward m b p;
                      m2 = merge_backward m1 b p;
                      a' = a\<lparr>free_list := p,
                             free_size := free_size a + size_of m2 b * unit_size\<rparr>
                  in Some (Inr (), set_info m2 (d_allocator_info_p this) a'))))"

text \<open>\<^verbatim>\<open>size_t free_size () const\<close>, named \<open>free_size_op\<close> beside the record field.\<close>

definition free_size_op :: "static_allocator \<Rightarrow> memory \<Rightarrow> error + size_t" where
  "free_size_op this m =
     (if d_allocator_info_p this = 0
      then Inl (Runtime_Error ''Uninitialized allocator information'')
      else case info_at m (d_allocator_info_p this) of
        None \<Rightarrow> Inl Segmentation_Fault
      | Some a \<Rightarrow> Inr (free_size a))"

text \<open>\<^verbatim>\<open>bool unified () const\<close>.\<close>

definition unified :: "static_allocator \<Rightarrow> memory \<Rightarrow> error + bool" where
  "unified this m =
     (if d_allocator_info_p this = 0
      then Inl (Runtime_Error ''Uninitialized allocator information'')
      else case info_at m (d_allocator_info_p this) of
        None \<Rightarrow> Inl Segmentation_Fault
      | Some a \<Rightarrow>
          if static_memory_map a = 0 then Inr False
          else if free_list a = 0 then Inr False
          else (let b = free_list a in
                if next_of m b = 0 then Inl Segmentation_Fault
                else Inr (next_of m (next_of m b) = b)))"


section \<open>Shared allocator: data\<close>

text \<open>
  \<^verbatim>\<open>#define MAX_SHM_MAP_NAME_SIZE 32\<close>, and \<^verbatim>\<open>sizeof(shared_map_info_t) = 96\<close> on the
  platform fixed above (a 32-byte \<^verbatim>\<open>sem_t\<close>, the count with its padding, two 8-byte
  fields and the 33-byte name, rounded up to a multiple of 8).
\<close>

definition MAX_SHM_MAP_NAME_SIZE :: nat where
  "MAX_SHM_MAP_NAME_SIZE = 32"

definition sizeof_shared_map_info_t :: size_t where
  "sizeof_shared_map_info_t = 96"

text \<open>
  The control header at the front of the mapped segment. The semaphore is its counter,
  or \<open>None\<close> while it is not initialised (before \<^verbatim>\<open>sem_init\<close>, after
  \<^verbatim>\<open>sem_destroy\<close>). The name is the C string held in the 33-byte buffer.
\<close>

record shared_map_info_t =
  sem :: "nat option"
  ref_count :: "32 word"
  shm_map_ptr :: addr
  shm_map_size :: size_t
  shm_map_name :: string

text \<open>
  The operating system as the class uses it: the set of named shared-memory objects, the
  control headers of the mapped segments by their base address, the memory the embedded
  static allocator works on, and the system calls made so far, oldest first.
  Whether \<^verbatim>\<open>shm_open\<close>, \<^verbatim>\<open>ftruncate\<close>, \<^verbatim>\<open>mmap\<close> and \<^verbatim>\<open>sem_init\<close> succeed, and the
  address \<^verbatim>\<open>mmap\<close> chooses, is not determined by the program: the constructor takes them
  from an environment. The semaphore calls, \<^verbatim>\<open>munmap\<close> and \<^verbatim>\<open>shm_unlink\<close> succeed
  exactly when their argument is valid.
\<close>

datatype os_call =
    Shm_Open string
  | Ftruncate size_t
  | Mmap size_t
  | Close
  | Sem_Init
  | Sem_Wait
  | Sem_Post
  | Sem_Destroy
  | Munmap addr size_t
  | Shm_Unlink string

record os_env =
  fails :: "os_call \<Rightarrow> bool"
  mmap_addr :: addr

record world =
  shm_objects :: "string set"
  mapped :: "addr \<rightharpoonup> shared_map_info_t"
  heap :: memory
  syscalls :: "os_call list"

record shared_allocator =
  d_shared_map_info_p :: addr
  d_static_allocator :: static_allocator

definition log_call :: "os_call \<Rightarrow> world \<Rightarrow> world" where
  "log_call c w = w\<lparr>syscalls := syscalls w @ [c]\<rparr>"

definition set_shared_info :: "world \<Rightarrow> addr \<Rightarrow> shared_map_info_t \<Rightarrow> world" where
  "set_shared_info w p i = w\<lparr>mapped := (mapped w)(p \<mapsto> i)\<rparr>"

section \<open>Shared allocator: operations\<close>

text \<open>
  \<^verbatim>\<open>take_sem\<close> is \<^verbatim>\<open>sem_wait\<close>: it decrements a positive counter and blocks on a zero
  one. Nothing else runs in this sequential model, so a blocked call never returns: its
  result is \<open>None\<close>. \<^verbatim>\<open>drop_sem\<close> is \<^verbatim>\<open>sem_post\<close>; the source names \<^verbatim>\<open>"sem_wait"\<close>
  in the exception of both.
\<close>

definition take_sem :: "shared_allocator \<Rightarrow> world \<Rightarrow> ((error + unit) \<times> world) option" where
  "take_sem this w =
     (case mapped w (d_shared_map_info_p this) of
        None \<Rightarrow> Some (Inl Segmentation_Fault, w)
      | Some i \<Rightarrow>
          (case sem i of
             None \<Rightarrow> Some (Inl (System_Error ''sem_wait''), log_call Sem_Wait w)
           | Some 0 \<Rightarrow> None
           | Some (Suc v) \<Rightarrow>
               Some (Inr (), log_call Sem_Wait
                       (set_shared_info w (d_shared_map_info_p this) (i\<lparr>sem := Some v\<rparr>)))))"

definition drop_sem :: "shared_allocator \<Rightarrow> world \<Rightarrow> (error + unit) \<times> world" where
  "drop_sem this w =
     (case mapped w (d_shared_map_info_p this) of
        None \<Rightarrow> (Inl Segmentation_Fault, w)
      | Some i \<Rightarrow>
          (case sem i of
             None \<Rightarrow> (Inl (System_Error ''sem_wait''), log_call Sem_Post w)
           | Some v \<Rightarrow>
               (Inr (), log_call Sem_Post
                  (set_shared_info w (d_shared_map_info_p this) (i\<lparr>sem := Some (Suc v)\<rparr>)))))"

text \<open>Constructor \<^verbatim>\<open>Shared_Allocator (char const *shared_map_name, size_t shared_map_size)\<close>.\<close>

definition Shared_Allocator ::
  "os_env \<Rightarrow> string \<Rightarrow> size_t \<Rightarrow> world \<Rightarrow> (error + shared_allocator) \<times> world" where
  "Shared_Allocator env shared_map_name shared_map_size w =
     (if length shared_map_name \<ge> MAX_SHM_MAP_NAME_SIZE + 1
      then (Inl (Invalid_Argument ''Shared map name too long''), w)
      else
        (let w1 = log_call (Shm_Open shared_map_name) w in
         if fails env (Shm_Open shared_map_name) then (Inl (System_Error ''shm_open''), w1)
         else
           (let w2 = w1\<lparr>shm_objects := insert shared_map_name (shm_objects w1)\<rparr>;
                required_shared_map_size = shared_map_size + sizeof_shared_map_info_t;
                w3 = log_call (Ftruncate required_shared_map_size) w2
            in if fails env (Ftruncate required_shared_map_size)
               then (Inl (System_Error ''ftruncate''), w3)
               else
                 (let w4 = log_call (Mmap required_shared_map_size) w3 in
                  if fails env (Mmap required_shared_map_size)
                  then (Inl (System_Error ''mmap''), w4)
                  else
                    (let shm_map_ptr = mmap_addr env;
                         w5 = log_call Close w4;
                         free_shm_map_ptr = shm_map_ptr + sizeof_shared_map_info_t;
                         info = \<lparr>sem = None, ref_count = 1, shm_map_ptr = free_shm_map_ptr,
                                 shm_map_size = shared_map_size,
                                 shm_map_name = take MAX_SHM_MAP_NAME_SIZE shared_map_name\<rparr>;
                         w6 = log_call Sem_Init (set_shared_info w5 shm_map_ptr info)
                     in if fails env Sem_Init then (Inl (System_Error ''sem_init''), w6)
                        else
                          (let w7 = set_shared_info w6 shm_map_ptr (info\<lparr>sem := Some 1\<rparr>) in
                           case Static_Allocator free_shm_map_ptr shared_map_size (heap w7) of
                             (Inl e, h) \<Rightarrow> (Inl e, w7\<lparr>heap := h\<rparr>)
                           | (Inr static_allocator, h) \<Rightarrow>
                               (Inr \<lparr>d_shared_map_info_p = shm_map_ptr,
                                     d_static_allocator = static_allocator\<rparr>,
                                w7\<lparr>heap := h\<rparr>)))))))"

text \<open>Copy constructor.\<close>

definition Shared_Allocator_copy ::
  "shared_allocator \<Rightarrow> world \<Rightarrow> ((error + shared_allocator) \<times> world) option" where
  "Shared_Allocator_copy origin w =
     (let this = \<lparr>d_shared_map_info_p = d_shared_map_info_p origin,
                  d_static_allocator = d_static_allocator origin\<rparr>
      in case take_sem this w of
           None \<Rightarrow> None
         | Some (Inl e, w1) \<Rightarrow> Some (Inl e, w1)
         | Some (Inr _, w1) \<Rightarrow>
             (case mapped w1 (d_shared_map_info_p this) of
                None \<Rightarrow> Some (Inl Segmentation_Fault, w1)
              | Some i \<Rightarrow>
                  (let w2 = set_shared_info w1 (d_shared_map_info_p this)
                              (i\<lparr>ref_count := ref_count i + 1\<rparr>)
                   in case drop_sem this w2 of
                        (Inl e, w3) \<Rightarrow> Some (Inl e, w3)
                      | (Inr _, w3) \<Rightarrow> Some (Inr this, w3))))"

text \<open>Move assignment: both members are taken from \<open>origin\<close>; the count is not touched.\<close>

definition Shared_Allocator_move_assign ::
  "shared_allocator \<Rightarrow> shared_allocator \<Rightarrow> world \<Rightarrow> shared_allocator \<times> world" where
  "Shared_Allocator_move_assign this origin w =
     (this\<lparr>d_shared_map_info_p := d_shared_map_info_p origin,
           d_static_allocator := d_static_allocator origin\<rparr>, w)"

text \<open>Destructor \<^verbatim>\<open>~Shared_Allocator ()\<close>.\<close>

definition Shared_Allocator_destroy ::
  "shared_allocator \<Rightarrow> world \<Rightarrow> ((error + unit) \<times> world) option" where
  "Shared_Allocator_destroy this w =
     (case take_sem this w of
        None \<Rightarrow> None
      | Some (Inl e, w1) \<Rightarrow> Some (Inl e, w1)
      | Some (Inr _, w1) \<Rightarrow>
          (case mapped w1 (d_shared_map_info_p this) of
             None \<Rightarrow> Some (Inl Segmentation_Fault, w1)
           | Some i \<Rightarrow>
               (let i' = i\<lparr>ref_count := ref_count i - 1\<rparr>;
                    w2 = set_shared_info w1 (d_shared_map_info_p this) i';
                    destroy = (ref_count i' = 0)
                in case drop_sem this w2 of
                     (Inl e, w3) \<Rightarrow> Some (Inl e, w3)
                   | (Inr _, w3) \<Rightarrow>
                       if destroy then
                         (case mapped w3 (d_shared_map_info_p this) of
                            None \<Rightarrow> Some (Inl Segmentation_Fault, w3)
                          | Some j \<Rightarrow>
                              (let w4 = log_call Sem_Destroy w3 in
                               if sem j = None
                               then Some (Inl (System_Error ''sem_destroy''), w4)
                               else
                                 (let w5 = set_shared_info w4 (d_shared_map_info_p this)
                                             (j\<lparr>sem := None\<rparr>);
                                      shm_map_name' = shm_map_name j;
                                      shm_map_size' = shm_map_size j + sizeof_shared_map_info_t;
                                      w6 = log_call (Munmap (d_shared_map_info_p this) shm_map_size')
                                             (w5\<lparr>mapped := (mapped w5)(d_shared_map_info_p this := None)\<rparr>);
                                      w7 = log_call (Shm_Unlink shm_map_name') w6
                                  in if shm_map_name' \<notin> shm_objects w7
                                     then Some (Inl (System_Error ''shm_unlink''), w7)
                                     else Some (Inr (),
                                            w7\<lparr>shm_objects := shm_objects w7 - {shm_map_name'}\<rparr>))))
                       else Some (Inr (), w3))))"

section \<open>Handles of one shared region\<close>

text \<open>
  Every handle of a region holds the same two pointers, so a history of the region is a
  list of operations applied through one of them. An operation that ends in an exception
  leaves the world as it was at the throw, and the history goes on from there.
  \<open>teardown_calls w w'\<close> are the calls of \<^verbatim>\<open>sem_destroy\<close>, \<^verbatim>\<open>munmap\<close> and
  \<^verbatim>\<open>shm_unlink\<close> made after \<open>w\<close> on the way to \<open>w'\<close>.
\<close>

datatype handle_op = Copy_Construct | Move_Assign | Destroy

fun lifecycle :: "shared_allocator \<Rightarrow> handle_op list \<Rightarrow> world \<Rightarrow> world option" where
  "lifecycle h [] w = Some w"
| "lifecycle h (Copy_Construct # ops) w =
     (case Shared_Allocator_copy h w of None \<Rightarrow> None | Some (_, w') \<Rightarrow> lifecycle h ops w')"
| "lifecycle h (Move_Assign # ops) w =
     lifecycle h ops (snd (Shared_Allocator_move_assign h h w))"
| "lifecycle h (Destroy # ops) w =
     (case Shared_Allocator_destroy h w of None \<Rightarrow> None | Some (_, w') \<Rightarrow> lifecycle h ops w')"

fun is_teardown :: "os_call \<Rightarrow> bool" where
  "is_teardown Sem_Destroy = True"
| "is_teardown (Munmap _ _) = True"
| "is_teardown (Shm_Unlink _) = True"
| "is_teardown _ = False"

definition teardown_calls :: "world \<Rightarrow> world \<Rightarrow> os_call list" where
  "teardown_calls w w' = filter is_teardown (drop (length (syscalls w)) (syscalls w'))"

text \<open>
  What holds of a region from its construction on: while it is mapped its semaphore is
  free, its name is linked and no teardown call has been made since position \<open>L\<close> of
  the log; once it is unmapped the three teardown calls have been made once, in order,
  and the name is unlinked.
\<close>

definition region_inv :: "nat \<Rightarrow> addr \<Rightarrow> string \<Rightarrow> size_t \<Rightarrow> world \<Rightarrow> bool" where
  "region_inv L p name sz w =
     (L \<le> length (syscalls w) \<and>
      (case mapped w p of
         Some i \<Rightarrow>
           sem i = Some 1 \<and> shm_map_name i = name \<and> shm_map_size i = sz \<and>
           name \<in> shm_objects w \<and> filter is_teardown (drop L (syscalls w)) = []
       | None \<Rightarrow>
           name \<notin> shm_objects w \<and>
           filter is_teardown (drop L (syscalls w)) =
             [Sem_Destroy, Munmap p (sz + sizeof_shared_map_info_t), Shm_Unlink name]))"

section \<open>Concrete arenas\<close>

text \<open>
  Zero-filled memory with no header installed, like the global \<^verbatim>\<open>char memory_map[4096]\<close>
  of the demonstration program before the constructor runs, and the arena the
  demonstration builds over it. The buffer is placed at address \<open>0x1000\<close>.
\<close>

definition empty_memory :: memory where
  "empty_memory = \<lparr>info_at = Map.empty, block_at = (\<lambda>_. \<lparr>d_next = 0, d_size = 0\<rparr>)\<rparr>"

definition my_allocator :: static_allocator where
  "my_allocator = \<lparr>d_allocator_info_p = 0x1000\<rparr>"

definition fresh_arena :: memory where
  "fresh_arena = snd (Static_Allocator 0x1000 4096 empty_memory)"

text \<open>Sequencing of calls that are expected to return normally.\<close>

definition and_then ::
  "((error + 'a) \<times> memory) option \<Rightarrow> ('a \<Rightarrow> memory \<Rightarrow> 'b option) \<Rightarrow> 'b option" where
  "and_then r k = (case r of Some (Inr x, m) \<Rightarrow> k x m | _ \<Rightarrow> None)"

text \<open>The arena after \<^verbatim>\<open>my_allocator.allocate(5)\<close> for \<^verbatim>\<open>T = int\<close>.\<close>

definition one_block_arena :: memory where
  "one_block_arena =
     (case allocate 4 my_allocator 5 fresh_arena of Some (_, m) \<Rightarrow> m | None \<Rightarrow> fresh_arena)"

section \<open>Call sequences on the demonstration arena\<close>

text \<open>
  Each of the following runs a short client program on the 4096-byte arena, for
  \<^verbatim>\<open>T = int\<close> (\<^verbatim>\<open>sizeof(T) = 4\<close>), and reports what the client can observe: the
  pointers returned and the results of \<^verbatim>\<open>free_size()\<close> and \<^verbatim>\<open>unified()\<close>.
  \<^item> \<open>free_in_allocation_order\<close>: allocate blocks A and B of five objects, free A, free B;
    the free-byte count at the start and after each call.
  \<^item> \<open>free_B_A_C\<close>: allocate A, B and C of five objects each, free B, A, C.
  \<^item> \<open>allocate_SIZE_MAX\<close>: one call \<^verbatim>\<open>allocate_b(SIZE_MAX)\<close>; also the free-list head
    before and after.
  \<^item> \<open>deallocate_wrapped_count\<close>: allocate A of five objects and free it with the object
    count \<open>2^62\<close>.
  \<^item> \<open>unified_when_exhausted\<close>: one call \<^verbatim>\<open>allocate_b(3936)\<close>, which takes the whole
    free block; also the free-list head and the successor of the sentinel at \<open>0x1028\<close>.
\<close>

definition free_in_allocation_order ::
  "((error + size_t) \<times> (error + size_t) \<times> (error + size_t) \<times> (error + size_t) \<times>
    (error + size_t)) option" where
  "free_in_allocation_order =
     and_then (Some (Static_Allocator 0x1000 4096 empty_memory)) (\<lambda>this m0.
     and_then (allocate 4 this 5 m0) (\<lambda>A m1.
     and_then (allocate 4 this 5 m1) (\<lambda>B m2.
     and_then (deallocate 4 this A 5 m2) (\<lambda>_ m3.
     and_then (deallocate 4 this B 5 m3) (\<lambda>_ m4.
       Some (free_size_op this m0, free_size_op this m1, free_size_op this m2,
             free_size_op this m3, free_size_op this m4))))))"

definition free_B_A_C ::
  "(addr \<times> addr \<times> addr \<times> (error + size_t) \<times> (error + size_t) \<times> (error + bool)) option" where
  "free_B_A_C =
     and_then (Some (Static_Allocator 0x1000 4096 empty_memory)) (\<lambda>this m0.
     and_then (allocate 4 this 5 m0) (\<lambda>A m1.
     and_then (allocate 4 this 5 m1) (\<lambda>B m2.
     and_then (allocate 4 this 5 m2) (\<lambda>C m3.
     and_then (deallocate 4 this B 5 m3) (\<lambda>_ m4.
     and_then (deallocate 4 this A 5 m4) (\<lambda>_ m5.
     and_then (deallocate 4 this C 5 m5) (\<lambda>_ m6.
       Some (A, B, C, free_size_op this m0, free_size_op this m6, unified this m6))))))))"

definition allocate_SIZE_MAX ::
  "((error + size_t) \<times> (error + addr) \<times> (error + size_t) \<times> addr option \<times> addr option) option" where
  "allocate_SIZE_MAX =
     and_then (Some (Static_Allocator 0x1000 4096 empty_memory)) (\<lambda>this m0.
       case allocate_b this 0xFFFFFFFFFFFFFFFF m0 of
         None \<Rightarrow> None
       | Some (r, m1) \<Rightarrow>
           Some (free_size_op this m0, r, free_size_op this m1,
                 map_option free_list (info_at m0 (d_allocator_info_p this)),
                 map_option free_list (info_at m1 (d_allocator_info_p this))))"

definition deallocate_wrapped_count ::
  "(addr \<times> (error + unit) \<times> (error + size_t) \<times> (error + size_t)) option" where
  "deallocate_wrapped_count =
     and_then (Some (Static_Allocator 0x1000 4096 empty_memory)) (\<lambda>this m0.
     and_then (allocate 4 this 5 m0) (\<lambda>A m1.
       case deallocate 4 this A 0x4000000000000000 m1 of
         None \<Rightarrow> None
       | Some (r, m2) \<Rightarrow> Some (A, r, free_size_op this m1, free_size_op this m2)))"

definition unified_when_exhausted ::
  "(addr \<times> (error + bool) \<times> (error + size_t) \<times> addr option \<times> addr) option" where
  "unified_when_exhausted =
     and_then (Some (Static_Allocator 0x1000 4096 empty_memory)) (\<lambda>this m0.
     and_then (allocate_b this 3936 m0) (\<lambda>p m1.
       Some (p, unified this m1, free_size_op this m1,
             map_option free_list (info_at m1 (d_allocator_info_p this)),
             next_of m1 0x1028)))"

text \<open>
  The world of the second demonstration program: nothing mapped, every system call
  succeeds, and the region \<^verbatim>\<open>"rosmem"\<close> of 4096 bytes that its \<^verbatim>\<open>main\<close> creates.
\<close>

definition main_env :: os_env where
  "main_env = \<lparr>fails = (\<lambda>_. False), mmap_addr = 0x7F0000000000\<rparr>"

definition boot_world :: world where
  "boot_world = \<lparr>shm_objects = {}, mapped = Map.empty, heap = empty_memory, syscalls = []\<rparr>"

definition rosmem_allocator :: shared_allocator where
  "rosmem_allocator =
     \<lparr>d_shared_map_info_p = 0x7F0000000000,
      d_static_allocator = \<lparr>d_allocator_info_p = 0x7F0000000060\<rparr>\<rparr>"

definition rosmem_world :: world where
  "rosmem_world = snd (Shared_Allocator main_env ''rosmem'' 4096 boot_world)"

section \<open>Arenas without live allocations\<close>

text \<open>
  An initialised arena in which nothing is allocated: the header sits at the front of a
  buffer whose end address is representable, and either no allocation has been made yet
  (the list is not built and the free-byte count is the one the constructor set), or the
  free list is the sentinel and the one block that spans the usable space, with the head
  pointer on either of them.
\<close>

definition idle_arena :: "static_allocator \<Rightarrow> memory \<Rightarrow> bool" where
  "idle_arena this m =
     (case info_at m (d_allocator_info_p this) of
        None \<Rightarrow> False
      | Some a \<Rightarrow>
          (let head = free_memory_map a; init = head + unit_size in
           d_allocator_info_p this \<noteq> 0 \<and>
           static_memory_map a = d_allocator_info_p this \<and>
           free_memory_map a = static_memory_map a + sizeof_allocator_info_t \<and>
           minimum_memory_size \<le> capacity a \<and>
           unat (static_memory_map a) + unat (capacity a) < 2 ^ 64 \<and>
           (free_list a = 0 \<and> free_size a = capacity a - minimum_memory_size \<or>
            (free_list a = head \<or> free_list a = init) \<and>
            next_of m head = init \<and> size_of m head = 0 \<and>
            next_of m init = head \<and>
            size_of m init = (capacity a - minimum_memory_size) div unit_size)))"

section \<open>Basic facts about the memory updates\<close>

lemma block_at_set_size [simp]:
  "block_at (set_size m p v) q =
     (if q = p then (block_at m p)\<lparr>d_size := v\<rparr> else block_at m q)"
  by (simp add: set_size_def)

lemma block_at_set_next [simp]:
  "block_at (set_next m p v) q =
     (if q = p then (block_at m p)\<lparr>d_next := v\<rparr> else block_at m q)"
  by (simp add: set_next_def)

lemma block_at_set_info [simp]: "block_at (set_info m p a) = block_at m"
  by (simp add: set_info_def)

lemma info_at_set_size [simp]: "info_at (set_size m p v) = info_at m"
  by (simp add: set_size_def)

lemma info_at_set_next [simp]: "info_at (set_next m p v) = info_at m"
  by (simp add: set_next_def)

lemma info_at_set_info [simp]: "info_at (set_info m p a) = (info_at m)(p \<mapsto> a)"
  by (simp add: set_info_def)

lemma info_at_fresh_arena:
  "info_at fresh_arena 0x1000 =
     Some \<lparr>static_memory_map = 0x1000, free_memory_map = 0x1028, capacity = 4096,
           free_size = 3992, free_list = 0\<rparr>"
  by (simp add: fresh_arena_def Static_Allocator_def minimum_memory_size_def unit_size_def
      sizeof_allocator_info_t_def)

lemma info_at_one_block_arena:
  "info_at one_block_arena 0x1000 =
     Some \<lparr>static_memory_map = 0x1000, free_memory_map = 0x1028, capacity = 4096,
           free_size = 3928, free_list = 0x1028\<rparr>"
  by (simp add: one_block_arena_def allocate_def allocate_b_def my_allocator_def
      info_at_fresh_arena allocate_loop.simps unit_size_def Let_def)

section \<open>Word arithmetic of the arena layout\<close>

lemma unat_unit_size: "unat unit_size = 32"
  by (simp add: unit_size_def)

lemma unat_sizeof_allocator_info_t: "unat sizeof_allocator_info_t = 40"
  by (simp add: sizeof_allocator_info_t_def)

lemma unat_minimum_memory_size: "unat minimum_memory_size = 104"
  by (simp add: minimum_memory_size_def unit_size_def sizeof_allocator_info_t_def)

lemma unat_add_no_wrap:
  fixes x y :: "64 word"
  assumes "unat x + unat y < 2 ^ 64"
  shows "unat (x + y) = unat x + unat y"
  using assms unat_add_lem [of x y] by simp

lemma unat_times_unit_size:
  fixes d :: "64 word"
  assumes "unat d * 32 < 2 ^ 64"
  shows "unat (d * unit_size) = unat d * 32"
proof -
  have "unat d * unat unit_size < 2 ^ LENGTH(64)"
    using assms by (simp add: unat_unit_size)
  then have "unat (d * unit_size) = unat d * unat unit_size"
    by (rule iffD1 [OF unat_mult_lem])
  then show ?thesis by (simp only: unat_unit_size)
qed

lemma unat_div_unit_size:
  fixes x :: "64 word"
  shows "unat (x div unit_size) = unat x div 32"
  by (simp add: unat_div unat_unit_size)

lemma n_blocks_unat:
  fixes n_bytes :: "64 word"
  shows "unat ((n_bytes + unit_size - 1) div unit_size + 1) =
           unat (n_bytes + unit_size - 1) div 32 + 1"
proof -
  define x where "x = n_bytes + unit_size - 1"
  define q where "q = x div unit_size"
  have q: "unat q = unat x div 32" unfolding q_def by (rule unat_div_unit_size)
  have "unat x < 2 ^ 64" using unsigned_less [of x] by simp
  then have "unat q + unat (1 :: 64 word) < 2 ^ 64" using q by simp
  then have "unat (q + 1) = unat q + unat (1 :: 64 word)" by (rule unat_add_no_wrap)
  then show ?thesis using q unfolding q_def x_def by simp
qed

lemma round_up_unat:
  fixes n_bytes :: "64 word"
  shows "unat (n_bytes + unit_size - 1) = (unat n_bytes + 31) mod 2 ^ 64"
proof -
  have "unat (31 + n_bytes) = (unat (31 :: 64 word) + unat n_bytes) mod 2 ^ LENGTH(64)"
    by (rule unat_word_ariths)
  then show ?thesis by (simp add: unit_size_def add.commute [of "31 :: nat"])
qed

lemma payload_in_bounds:
  fixes base cap ptr n_bytes n :: "64 word"
  assumes fit: "unat base + unat cap < 2 ^ 64"
    and lo: "unat base < unat ptr" and lo32: "32 \<le> unat ptr"
    and hi: "unat ptr + (unat n - 1) * 32 \<le> unat base + unat cap"
    and n: "n = (n_bytes + unit_size - 1) div unit_size + 1"
  shows "base < ptr \<and> ptr + n_bytes \<le> base + cap"
proof -
  have end_nat: "unat (base + cap) = unat base + unat cap"
    using fit by (rule unat_add_no_wrap)
  have n_nat: "unat n = (unat n_bytes + 31) mod 2 ^ 64 div 32 + 1"
    unfolding n by (simp only: n_blocks_unat round_up_unat)
  have nb: "unat n_bytes < 2 ^ 64" using unsigned_less [of n_bytes] by simp
  have "unat (ptr + n_bytes) \<le> unat base + unat cap"
  proof (cases "unat n_bytes + 31 < 2 ^ 64")
    case True
    then have "(unat n - 1) * 32 \<ge> unat n_bytes" using n_nat by simp
    then have le: "unat ptr + unat n_bytes \<le> unat base + unat cap" using hi by linarith
    then have "unat ptr + unat n_bytes < 2 ^ 64" using fit by linarith
    then have "unat (ptr + n_bytes) = unat ptr + unat n_bytes" by (rule unat_add_no_wrap)
    then show ?thesis using le by simp
  next
    case False
    have "unat (ptr + n_bytes) = (unat ptr + unat n_bytes) mod 2 ^ LENGTH(64)"
      by (rule unat_word_ariths)
    moreover have "unat ptr < 2 ^ 64" using unsigned_less [of ptr] by simp
    ultimately have "unat (ptr + n_bytes) = unat ptr + unat n_bytes - 2 ^ 64"
      using False lo32 nb by (simp add: mod_if)
    then show ?thesis using nb hi by linarith
  qed
  then show ?thesis using lo end_nat by (simp add: word_less_nat_alt word_le_nat_alt)
qed

lemma arena_layout:
  fixes base cap :: "64 word"
  assumes "minimum_memory_size \<le> cap" and "unat base + unat cap < 2 ^ 64"
  shows "unat (base + sizeof_allocator_info_t) = unat base + 40"
    and "unat (base + sizeof_allocator_info_t + unit_size) = unat base + 72"
    and "unat ((cap - minimum_memory_size) div unit_size) = (unat cap - 104) div 32"
    and "104 \<le> unat cap"
proof -
  show c: "104 \<le> unat cap"
    using assms(1) by (simp add: word_le_nat_alt unat_minimum_memory_size)
  have "unat base + unat sizeof_allocator_info_t < 2 ^ 64"
    using c assms(2) by (simp add: unat_sizeof_allocator_info_t)
  then show h: "unat (base + sizeof_allocator_info_t) = unat base + 40"
    using unat_add_no_wrap [of base sizeof_allocator_info_t]
    by (simp add: unat_sizeof_allocator_info_t)
  have "unat (base + sizeof_allocator_info_t) + unat unit_size < 2 ^ 64"
    using c assms(2) h by (simp add: unat_unit_size)
  then show "unat (base + sizeof_allocator_info_t + unit_size) = unat base + 72"
    using unat_add_no_wrap [of "base + sizeof_allocator_info_t" unit_size] h
    by (simp add: unat_unit_size)
  have "unat (cap - minimum_memory_size) = unat cap - 104"
    using assms(1) by (simp add: unat_sub unat_minimum_memory_size)
  then show "unat ((cap - minimum_memory_size) div unit_size) = (unat cap - 104) div 32"
    by (simp add: unat_div_unit_size)
qed

lemma block_layout:
  fixes init K n :: "64 word"
  assumes "unat init + unat K * 32 + 32 < 2 ^ 64" and "n \<le> K"
  shows "unat (init + (K - n) * unit_size) = unat init + (unat K - unat n) * 32"
    and "unat (init + (K - n) * unit_size + unit_size) =
           unat init + (unat K - unat n) * 32 + 32"
    and "unat (init + (K - n) * unit_size + n * unit_size) = unat init + unat K * 32"
proof -
  define d where "d = K - n"
  have d: "unat d = unat K - unat n" unfolding d_def using assms(2) by (rule unat_sub)
  have nK: "unat n \<le> unat K" using assms(2) by (simp add: word_le_nat_alt)
  have "unat d * 32 < 2 ^ 64" using d assms(1) by simp
  then have du: "unat (d * unit_size) = (unat K - unat n) * 32"
    using d by (simp add: unat_times_unit_size)
  have "unat init + unat (d * unit_size) < 2 ^ 64" using du assms(1) by simp
  then have "unat (init + d * unit_size) = unat init + unat (d * unit_size)"
    by (rule unat_add_no_wrap)
  then show b: "unat (init + (K - n) * unit_size) = unat init + (unat K - unat n) * 32"
    using du unfolding d_def by simp
  have "unat n * 32 < 2 ^ 64" using nK assms(1) by simp
  then have nu: "unat (n * unit_size) = unat n * 32" by (rule unat_times_unit_size)
  have "unat (init + (K - n) * unit_size) + unat (n * unit_size) < 2 ^ 64"
    using b nu nK assms(1) by (simp add: algebra_simps)
  then have "unat (init + (K - n) * unit_size + n * unit_size) =
               unat (init + (K - n) * unit_size) + unat (n * unit_size)"
    by (rule unat_add_no_wrap)
  then show "unat (init + (K - n) * unit_size + n * unit_size) = unat init + unat K * 32"
    using b nu nK by (simp add: algebra_simps)
  have "unat (init + (K - n) * unit_size) + unat unit_size < 2 ^ 64"
    using b nK assms(1) by (simp add: unat_unit_size)
  then have "unat (init + (K - n) * unit_size + unit_size) =
               unat (init + (K - n) * unit_size) + unat unit_size"
    by (rule unat_add_no_wrap)
  then show "unat (init + (K - n) * unit_size + unit_size) =
               unat init + (unat K - unat n) * 32 + 32"
    using b by (simp add: unat_unit_size)
qed

section \<open>Searching a two-node list\<close>

lemma allocate_loop_exact:
  assumes "free_list a = head \<or> free_list a = init"
    and "next_of m head = init" and "next_of m init = head"
    and "size_of m head = 0" and "size_of m init = n"
    and "head \<noteq> 0" and "init \<noteq> 0" and "head \<noteq> init" and "n \<noteq> 0"
  shows "allocate_loop ip a n (free_list a) (next_of m (free_list a)) m =
           Some (Inr (init + unit_size),
                 set_info (set_next m head head) ip
                   (a\<lparr>free_list := head, free_size := free_size a - n * unit_size\<rparr>))"
proof -
  have from_head: "allocate_loop ip a n head init m =
           Some (Inr (init + unit_size),
                 set_info (set_next m head head) ip
                   (a\<lparr>free_list := head, free_size := free_size a - n * unit_size\<rparr>))"
    using assms by (subst allocate_loop.simps) simp
  from assms(1) show ?thesis
  proof
    assume "free_list a = head"
    then show ?thesis using from_head assms(2) by simp
  next
    assume fl: "free_list a = init"
    have "allocate_loop ip a n init head m = allocate_loop ip a n head init m"
      using assms fl by (subst allocate_loop.simps) simp
    then show ?thesis using from_head fl assms(3) by simp
  qed
qed

lemma allocate_loop_split:
  assumes "free_list a = head \<or> free_list a = init"
    and "next_of m head = init" and "next_of m init = head"
    and "size_of m head = 0" and "size_of m init = K"
    and "head \<noteq> 0" and "init \<noteq> 0" and "head \<noteq> init" and "n \<noteq> 0" and "n < K"
  shows "allocate_loop ip a n (free_list a) (next_of m (free_list a)) m =
           Some (Inr (init + (K - n) * unit_size + unit_size),
                 set_info (set_size (set_size m init (K - n)) (init + (K - n) * unit_size) n) ip
                   (a\<lparr>free_list := head, free_size := free_size a - n * unit_size\<rparr>))"
proof -
  have nK: "n \<le> K" "K \<noteq> n" using assms(10) by auto
  have from_head: "allocate_loop ip a n head init m =
           Some (Inr (init + (K - n) * unit_size + unit_size),
                 set_info (set_size (set_size m init (K - n)) (init + (K - n) * unit_size) n) ip
                   (a\<lparr>free_list := head, free_size := free_size a - n * unit_size\<rparr>))"
    using assms nK by (subst allocate_loop.simps) (simp add: Let_def)
  from assms(1) show ?thesis
  proof
    assume "free_list a = head"
    then show ?thesis using from_head assms(2) by simp
  next
    assume fl: "free_list a = init"
    have "allocate_loop ip a n init head m = allocate_loop ip a n head init m"
      using assms fl by (subst allocate_loop.simps) simp
    then show ?thesis using from_head fl assms(3) by simp
  qed
qed

lemma allocate_loop_none:
  assumes "free_list a = head \<or> free_list a = init"
    and "next_of m head = init" and "next_of m init = head"
    and "size_of m head = 0" and "size_of m init = K"
    and "head \<noteq> 0" and "init \<noteq> 0" and "head \<noteq> init" and "n \<noteq> 0" and "K < n"
  shows "allocate_loop ip a n (free_list a) (next_of m (free_list a)) m = Some (Inr 0, m)"
proof -
  have nK: "\<not> n \<le> K" using assms(10) by auto
  from assms(1) show ?thesis
  proof
    assume fl: "free_list a = head"
    have "allocate_loop ip a n head init m = allocate_loop ip a n init head m"
      using assms fl nK by (subst allocate_loop.simps) simp
    also have "\<dots> = Some (Inr 0, m)"
      using assms fl nK by (subst allocate_loop.simps) simp
    finally show ?thesis using fl assms(2) by simp
  next
    assume fl: "free_list a = init"
    have "allocate_loop ip a n init head m = allocate_loop ip a n head init m"
      using assms fl by (subst allocate_loop.simps) simp
    also have "\<dots> = Some (Inr 0, m)"
      using assms fl nK by (subst allocate_loop.simps) simp
    finally show ?thesis using fl assms(3) by simp
  qed
qed


lemma deallocate_after_exact:
  assumes "info_at m1 (d_allocator_info_p this) = Some a1"
    and "free_list a1 = head"
    and "next_of m1 head = head" and "size_of m1 head = 0" and "size_of m1 init = n"
    and "in_bounds sizeof_T a1 (init + unit_size) n_obj" and "init + unit_size \<noteq> 0"
    and "head \<noteq> 0" and "head < init" and "init + n * unit_size \<noteq> head"
  shows "deallocate sizeof_T this (init + unit_size) n_obj m1 =
           Some (Inr (),
                 set_info (set_next (set_next m1 init head) head init) (d_allocator_info_p this)
                   (a1\<lparr>free_list := head, free_size := free_size a1 + n * unit_size\<rparr>))"
proof -
  have ne: "head \<noteq> init" "init \<noteq> head" "\<not> init < head" "head \<le> init"
    using assms(9) by auto
  have loc: "locate m1 init head = Some (Inr head)"
    using assms ne by (subst locate.simps) simp
  have fwd: "merge_forward m1 init head = set_next m1 init head"
    using assms by (simp add: merge_forward_def)
  have bwd: "merge_backward (set_next m1 init head) init head =
               set_next (set_next m1 init head) head init"
    using assms ne by (simp add: merge_backward_def)
  show ?thesis
    using assms(1,2,5,6,7) ne loc fwd bwd by (simp add: deallocate_def Let_def)
qed

lemma deallocate_after_split:
  assumes "info_at m1 (d_allocator_info_p this) = Some a1"
    and "free_list a1 = head"
    and "next_of m1 head = init" and "next_of m1 init = head"
    and "size_of m1 init = d" and "size_of m1 blk = n" and "init + d * unit_size = blk"
    and "in_bounds sizeof_T a1 (blk + unit_size) n_obj" and "blk + unit_size \<noteq> 0"
    and "head \<noteq> 0" and "init \<noteq> 0" and "head < init" and "init < blk"
    and "blk + n * unit_size \<noteq> head"
  shows "deallocate sizeof_T this (blk + unit_size) n_obj m1 =
           Some (Inr (),
                 set_info (set_next (set_size (set_next m1 blk head) init (d + n)) init head)
                   (d_allocator_info_p this)
                   (a1\<lparr>free_list := init, free_size := free_size a1 + n * unit_size\<rparr>))"
proof -
  have ne: "head \<noteq> init" "init \<noteq> head" "init \<noteq> blk" "blk \<noteq> init" "head \<noteq> blk" "blk \<noteq> head"
    "\<not> blk < init" "\<not> init \<le> head" "\<not> blk < head" "head \<le> init" "init \<le> blk"
    using assms(12,13) by auto
  have "locate m1 blk head = locate m1 blk init"
    using assms ne by (subst locate.simps) simp
  also have "\<dots> = Some (Inr init)"
    using assms ne by (subst locate.simps) simp
  finally have loc: "locate m1 blk head = Some (Inr init)" .
  have fwd: "merge_forward m1 blk init = set_next m1 blk head"
    using assms by (simp add: merge_forward_def)
  have bwd: "merge_backward (set_next m1 blk head) blk init =
               set_next (set_size (set_next m1 blk head) init (d + n)) init head"
    using assms ne by (simp add: merge_backward_def Let_def)
  show ?thesis
    using assms(1,2,6,8,9) ne loc fwd bwd by (simp add: deallocate_def Let_def)
qed

section \<open>Construction\<close>

text \<open>
  C8. The constructor fails with \<^verbatim>\<open>std::bad_alloc\<close> exactly when the capacity is
  smaller than the header plus two block headers. When it returns an allocator, the
  header sits at the front of the buffer (the allocator's pointer is the buffer address
  and the header is stored there), the free-byte count is the capacity minus that
  overhead, the free-list head is null and no block header has been written: the list
  is not built by the constructor. It does return an allocator for every non-null
  buffer of sufficient capacity.
\<close>

theorem Static_Allocator_construction:
  "(fst (Static_Allocator buf cap m) = Inl Bad_Alloc \<longleftrightarrow> cap < minimum_memory_size) \<and>
   (\<forall>this m'. Static_Allocator buf cap m = (Inr this, m') \<longrightarrow>
      d_allocator_info_p this = buf \<and>
      info_at m' buf =
        Some \<lparr>static_memory_map = buf,
              free_memory_map = buf + sizeof_allocator_info_t,
              capacity = cap,
              free_size = cap - (sizeof_allocator_info_t + 2 * unit_size),
              free_list = 0\<rparr> \<and>
      block_at m' = block_at m) \<and>
   (minimum_memory_size \<le> cap \<and> buf \<noteq> 0 \<longrightarrow>
      (\<exists>this m'. Static_Allocator buf cap m = (Inr this, m')))"
  by (auto simp: Static_Allocator_def minimum_memory_size_def)

theorem Static_Allocator_construction_witness:
  "Static_Allocator 0x1000 4096 empty_memory =
     (Inr \<lparr>d_allocator_info_p = 0x1000\<rparr>,
      set_info empty_memory 0x1000
        \<lparr>static_memory_map = 0x1000, free_memory_map = 0x1028, capacity = 4096,
         free_size = 3992, free_list = 0\<rparr>) \<and>
   fst (Static_Allocator 0x1000 103 empty_memory) = Inl Bad_Alloc"
  using Static_Allocator_construction [of "0x1000" 4096 empty_memory]
    Static_Allocator_construction [of "0x1000" 103 empty_memory]
  by (simp add: Static_Allocator_def minimum_memory_size_def unit_size_def
      sizeof_allocator_info_t_def)

section \<open>Deallocation and its arguments\<close>

text \<open>
  C10. The object count only takes part in the bounds check: whenever two counts both
  pass it, the two calls of \<^verbatim>\<open>deallocate\<close> on the same memory have the same outcome
  and leave the same memory (the number of blocks given back is read from the stored
  block header).
\<close>

theorem deallocate_ignores_count:
  assumes "\<forall>a. info_at m (d_allocator_info_p this) = Some a \<longrightarrow>
             in_bounds sizeof_T a ptr k \<and> in_bounds sizeof_T a ptr n"
  shows "deallocate sizeof_T this ptr k m = deallocate sizeof_T this ptr n m"
  using assms by (simp add: deallocate_def split: option.splits)

theorem deallocate_ignores_count_witness:
  "in_bounds 4 (the (info_at one_block_arena 0x1000)) 8104 5 \<and>
   in_bounds 4 (the (info_at one_block_arena 0x1000)) 8104 1 \<and>
   deallocate 4 my_allocator 8104 5 one_block_arena =
   deallocate 4 my_allocator 8104 1 one_block_arena"
  using deallocate_ignores_count [of one_block_arena my_allocator 4 8104 5 1]
  by (simp add: info_at_one_block_arena my_allocator_def in_bounds_def)

text \<open>
  What the other operations do with a null header pointer: \<^verbatim>\<open>allocate_b\<close> throws
  \<^verbatim>\<open>invalid_argument\<close>, \<^verbatim>\<open>free_size\<close> and \<^verbatim>\<open>unified\<close> throw \<^verbatim>\<open>runtime_error\<close>.
\<close>

lemma uninitialized_allocator_errors:
  assumes "d_allocator_info_p this = 0"
  shows "allocate_b this n_bytes m =
           Some (Inl (Invalid_Argument ''Uninitialized static memory''), m)"
    and "free_size_op this m = Inl (Runtime_Error ''Uninitialized allocator information'')"
    and "unified this m = Inl (Runtime_Error ''Uninitialized allocator information'')"
  using assms by (simp_all add: allocate_b_def free_size_op_def unified_def)

text \<open>
  C9. \<^verbatim>\<open>deallocate\<close> does not check that the free list exists: on an arena whose
  free-list head is still null, a call with a non-null pointer that passes the bounds
  check enters the neighbour search with \<open>p\<close> null and reads \<^verbatim>\<open>p->d.next\<close>. The
  outcome is the fault of that dereference, not an \<^verbatim>\<open>invalid_argument\<close> or
  \<^verbatim>\<open>runtime_error\<close> exception, and nothing has been written.
\<close>

theorem deallocate_uninitialized_list:
  assumes "info_at m (d_allocator_info_p this) = Some a"
    and "free_list a = 0"
    and "ptr \<noteq> 0"
    and "in_bounds sizeof_T a ptr n_obj"
  shows "deallocate sizeof_T this ptr n_obj m = Some (Inl Segmentation_Fault, m)"
  using assms by (simp add: deallocate_def locate.simps)

theorem deallocate_uninitialized_list_witness:
  "free_list (the (info_at fresh_arena 0x1000)) = 0 \<and>
   in_bounds 4 (the (info_at fresh_arena 0x1000)) 0x1100 1 \<and>
   deallocate 4 my_allocator 0x1100 1 fresh_arena = Some (Inl Segmentation_Fault, fresh_arena)"
  using deallocate_uninitialized_list
    [of fresh_arena my_allocator "the (info_at fresh_arena 0x1000)" "0x1100" 4 1]
  by (simp add: info_at_fresh_arena my_allocator_def in_bounds_def)

section \<open>Round trip\<close>

text \<open>The constructor leaves an arena without live allocations.\<close>

lemma idle_after_construction:
  assumes "Static_Allocator buf cap m = (Inr this, m')"
    and "unat buf + unat cap < 2 ^ 64"
  shows "idle_arena this m'"
  using assms
  by (auto simp: Static_Allocator_def idle_arena_def Let_def minimum_memory_size_def
      split: if_splits)

text \<open>
  C3. On an initialised arena without live allocations, whenever \<^verbatim>\<open>allocate(n_obj)\<close>
  returns a non-null pointer, the call \<^verbatim>\<open>deallocate(ptr, n_obj)\<close> that follows it
  returns normally, after it \<^verbatim>\<open>free_size()\<close> reports what it reported before the
  allocation, and \<^verbatim>\<open>unified()\<close> returns true. The arena is then again one without
  live allocations, so the statement applies to the next round trip as well.
\<close>

theorem round_trip:
  assumes idle: "idle_arena this m"
    and alloc: "allocate sizeof_T this n_obj m = Some (Inr ptr, m1)"
    and nonnull: "ptr \<noteq> 0"
  shows "\<exists>m2. deallocate sizeof_T this ptr n_obj m1 = Some (Inr (), m2) \<and>
           free_size_op this m2 = free_size_op this m \<and> unified this m2 = Inr True \<and>
           idle_arena this m2"
proof -
  define ip where "ip = d_allocator_info_p this"
  from idle obtain a where a: "info_at m ip = Some a"
    by (auto simp: idle_arena_def ip_def split: option.splits)
  define cap where "cap = capacity a"
  define head where "head = ip + sizeof_allocator_info_t"
  define init where "init = head + unit_size"
  define K where "K = (cap - minimum_memory_size) div unit_size"
  define n_bytes where "n_bytes = n_obj * sizeof_T"
  define n where "n = (n_bytes + unit_size - 1) div unit_size + 1"
  from idle a have ipnz: "ip \<noteq> 0"
    and smm: "static_memory_map a = ip"
    and fmm: "free_memory_map a = head"
    and capge: "minimum_memory_size \<le> cap"
    and fit: "unat ip + unat cap < 2 ^ 64"
    and shape: "free_list a = 0 \<and> free_size a = cap - minimum_memory_size \<or>
                (free_list a = head \<or> free_list a = init) \<and>
                next_of m head = init \<and> size_of m head = 0 \<and>
                next_of m init = head \<and> size_of m init = K"
    by (auto simp: idle_arena_def ip_def cap_def head_def init_def K_def Let_def)
  \<comment> \<open>Addresses as natural numbers\<close>
  have head_nat: "unat head = unat ip + 40" and init_nat: "unat init = unat ip + 72"
    and K_nat: "unat K = (unat cap - 104) div 32" and cap_nat: "104 \<le> unat cap"
    unfolding head_def init_def K_def using arena_layout [OF capge fit] by auto
  have room: "unat init + unat K * 32 + 32 < 2 ^ 64"
    and top: "unat init + unat K * 32 + 32 \<le> unat ip + unat cap"
    using init_nat K_nat cap_nat fit by auto
  have n_nat: "unat n = unat (n_bytes + unit_size - 1) div 32 + 1"
    unfolding n_def by (rule n_blocks_unat)
  have nnz: "n \<noteq> 0" using n_nat by (auto simp: unat_eq_0 [symmetric] simp del: unat_eq_0)
  have hnz: "head \<noteq> 0" "init \<noteq> 0" and hi: "head < init"
    using head_nat init_nat by (auto simp: word_less_nat_alt unat_eq_0 [symmetric] simp del: unat_eq_0)
  \<comment> \<open>The state on entry to the search loop, after the lazy construction of the list\<close>
  define a0 where "a0 = (if free_list a = 0 then a\<lparr>free_list := head\<rparr> else a)"
  define m0 where "m0 =
    (if free_list a = 0
     then set_next (set_info (set_next (set_size (set_size m head 0) init
            (free_size a div unit_size)) init head) ip a0) head init
     else m)"
  have entry: "allocate_loop ip a0 n (free_list a0) (next_of m0 (free_list a0)) m0 =
                 Some (Inr ptr, m1)"
    using alloc a ipnz smm fmm nonnull hi
    by (auto simp: allocate_def allocate_b_def ip_def [symmetric] n_bytes_def [symmetric]
        n_def [symmetric] a0_def m0_def init_def [symmetric] Let_def split: if_splits)
  have s0: "free_list a0 = head \<or> free_list a0 = init" "next_of m0 head = init"
    "next_of m0 init = head" "size_of m0 head = 0" "size_of m0 init = K"
    using shape hnz hi by (auto simp: a0_def m0_def K_def)
  have a0f: "free_size a0 = free_size a" "static_memory_map a0 = ip" "capacity a0 = cap"
    using smm by (auto simp: a0_def cap_def)
  have hne: "head \<noteq> init" using hi by auto
  have nK: "n \<le> K"
  proof (rule ccontr)
    assume "\<not> n \<le> K"
    then have "K < n" by auto
    from allocate_loop_none [OF s0 hnz hne nnz this, of ip] entry nonnull
    show False by simp
  qed
  \<comment> \<open>The block that is handed out\<close>
  define blk where "blk = init + (K - n) * unit_size"
  have blk_nat: "unat blk = unat init + (unat K - unat n) * 32"
    and ptr_nat: "unat (blk + unit_size) = unat init + (unat K - unat n) * 32 + 32"
    and end_nat: "unat (blk + n * unit_size) = unat init + unat K * 32"
    unfolding blk_def using block_layout [OF room nK] by auto
  have nK_nat: "unat n \<le> unat K" "1 \<le> unat n"
    using nK n_nat by (auto simp: word_le_nat_alt)
  have "ip < blk + unit_size \<and> blk + unit_size + n_bytes \<le> ip + cap"
  proof (rule payload_in_bounds [OF fit _ _ _ n_def])
    show "unat ip < unat (blk + unit_size)" using ptr_nat init_nat by simp
    show "32 \<le> unat (blk + unit_size)" using ptr_nat by simp
    have "(unat K - unat n) * 32 + 32 + (unat n - 1) * 32 = unat K * 32"
      using nK_nat by (simp add: algebra_simps)
    then show "unat (blk + unit_size) + (unat n - 1) * 32 \<le> unat ip + unat cap"
      using ptr_nat top by linarith
  qed
  then have bounds: "\<And>a'. static_memory_map a' = ip \<Longrightarrow> capacity a' = cap \<Longrightarrow>
      in_bounds sizeof_T a' (blk + unit_size) n_obj"
    by (simp add: in_bounds_def n_bytes_def)
  have "unat (blk + n * unit_size) \<noteq> unat head"
    using end_nat head_nat init_nat by linarith
  then have no_fwd: "blk + n * unit_size \<noteq> head" by auto
  have ptr_eq: "ptr = blk + unit_size \<and> m1 =
    (if K = n then set_info (set_next m0 head head) ip
        (a0\<lparr>free_list := head, free_size := free_size a0 - n * unit_size\<rparr>)
     else set_info (set_size (set_size m0 init (K - n)) blk n) ip
        (a0\<lparr>free_list := head, free_size := free_size a0 - n * unit_size\<rparr>))"
  proof (cases "K = n")
    case True
    from allocate_loop_exact [OF s0(1-4) _ hnz hne nnz, of ip] s0(5) True entry
    show ?thesis by (simp add: blk_def)
  next
    case False
    then have "n < K" using nK by auto
    from allocate_loop_split [OF s0 hnz hne nnz this, of ip] entry False
    show ?thesis by (simp add: blk_def)
  qed
  define a1 where "a1 = a0\<lparr>free_list := head, free_size := free_size a0 - n * unit_size\<rparr>"
  have a1f: "free_list a1 = head" "static_memory_map a1 = ip" "capacity a1 = cap"
    "free_size a1 + n * unit_size = free_size a"
    using a0f by (auto simp: a1_def)
  have a1g: "free_memory_map a1 = head"
    using fmm by (auto simp: a1_def a0_def)
  have ptr: "ptr = blk + unit_size" using ptr_eq by simp
  have ib: "in_bounds sizeof_T a1 (blk + unit_size) n_obj"
    using bounds a1f by simp
  have pnz: "blk + unit_size \<noteq> 0" using nonnull ptr by simp
  show ?thesis
  proof (cases "K = n")
    case True
    then have blk_init: "blk = init" by (simp add: blk_def)
    have m1: "m1 = set_info (set_next m0 head head) ip a1"
      using ptr_eq True by (simp add: a1_def)
    have pre: "info_at m1 (d_allocator_info_p this) = Some a1" "next_of m1 head = head"
      "size_of m1 head = 0" "size_of m1 init = n"
      using s0 True hne by (auto simp: m1 ip_def)
    define m2 where "m2 = set_info (set_next (set_next m1 init head) head init)
                   (d_allocator_info_p this)
                   (a1\<lparr>free_list := head, free_size := free_size a1 + n * unit_size\<rparr>)"
    have "deallocate sizeof_T this ptr n_obj m1 = Some (Inr (), m2)"
      unfolding m2_def ptr blk_init
      by (rule deallocate_after_exact [OF pre(1) a1f(1) pre(2-4) ib [unfolded blk_init]
            pnz [unfolded blk_init] hnz(1) hi no_fwd [unfolded blk_init]])
    moreover have "free_size_op this m2 = free_size_op this m"
      using a a1f ipnz by (simp add: free_size_op_def m2_def ip_def)
    moreover have "unified this m2 = Inr True"
      using a1f ipnz hnz hne by (simp add: unified_def m2_def ip_def Let_def)
    moreover have "idle_arena this m2"
      using a1f a1g ipnz hnz hne capge fit pre True
      by (simp add: idle_arena_def m2_def ip_def [symmetric] Let_def
          head_def [symmetric] init_def [symmetric] K_def [symmetric])
    ultimately show ?thesis by blast
  next
    case False
    then have lt: "n < K" using nK by auto
    have "unat init < unat blk" using blk_nat lt by (simp add: word_less_nat_alt)
    then have ib_lt: "init < blk" by (simp add: word_less_nat_alt)
    have bne: "blk \<noteq> init" "blk \<noteq> head" using ib_lt hi by auto
    have m1: "m1 = set_info (set_size (set_size m0 init (K - n)) blk n) ip a1"
      using ptr_eq False by (simp add: a1_def)
    have pre: "info_at m1 (d_allocator_info_p this) = Some a1" "next_of m1 head = init"
      "next_of m1 init = head" "size_of m1 init = K - n" "size_of m1 blk = n"
      "init + (K - n) * unit_size = blk"
      using s0 hne bne by (auto simp: m1 ip_def blk_def)
    have sh: "size_of m1 head = 0"
      using s0 hne bne by (auto simp: m1)
    define m2 where "m2 =
      set_info (set_next (set_size (set_next m1 blk head) init (K - n + n)) init head)
        (d_allocator_info_p this)
        (a1\<lparr>free_list := init, free_size := free_size a1 + n * unit_size\<rparr>)"
    have "deallocate sizeof_T this ptr n_obj m1 = Some (Inr (), m2)"
      unfolding m2_def ptr
      by (rule deallocate_after_split [OF pre(1) a1f(1) pre(2-6) ib pnz hnz hi ib_lt no_fwd])
    moreover have "free_size_op this m2 = free_size_op this m"
      using a a1f ipnz by (simp add: free_size_op_def m2_def ip_def)
    moreover have "unified this m2 = Inr True"
      using a1f ipnz hnz hne bne pre by (simp add: unified_def m2_def ip_def Let_def)
    moreover have "idle_arena this m2"
      using a1f a1g ipnz hnz hne bne capge fit pre sh
      by (simp add: idle_arena_def m2_def ip_def [symmetric] Let_def
          head_def [symmetric] init_def [symmetric] K_def [symmetric])
    ultimately show ?thesis by blast
  qed
qed


lemma idle_fresh_arena: "idle_arena my_allocator fresh_arena"
  by (simp add: idle_arena_def my_allocator_def info_at_fresh_arena Let_def
      sizeof_allocator_info_t_def minimum_memory_size_def unit_size_def)

lemma allocate_fresh_arena:
  "allocate 4 my_allocator 5 fresh_arena = Some (Inr 8104, one_block_arena)"
  by (simp add: one_block_arena_def allocate_def allocate_b_def my_allocator_def
      info_at_fresh_arena allocate_loop.simps unit_size_def Let_def)

theorem round_trip_witness:
  "idle_arena my_allocator fresh_arena \<and>
   allocate 4 my_allocator 5 fresh_arena = Some (Inr 8104, one_block_arena) \<and>
   (\<exists>m2. deallocate 4 my_allocator 8104 5 one_block_arena = Some (Inr (), m2) \<and>
      free_size_op my_allocator m2 = free_size_op my_allocator fresh_arena \<and>
      unified my_allocator m2 = Inr True \<and> idle_arena my_allocator m2)"
  using round_trip [OF idle_fresh_arena allocate_fresh_arena] idle_fresh_arena
    allocate_fresh_arena
  by simp

section \<open>Conservation and coalescing\<close>

text \<open>
  What one deallocation adds to the free-byte count, when the insertion point \<open>p\<close> is
  not the freed block itself: the size in the block's header if the block is not merged
  with its successor in the list, and that size plus the size of the successor if it is.
\<close>

lemma deallocate_counts_block:
  assumes "d_allocator_info_p this \<noteq> 0"
    and "info_at m (d_allocator_info_p this) = Some a"
    and "ptr \<noteq> 0" and "in_bounds sizeof_T a ptr n_obj"
    and "locate m (ptr - unit_size) (free_list a) = Some (Inr p)"
    and "ptr - unit_size + size_of m (ptr - unit_size) * unit_size \<noteq> next_of m p"
    and "p \<noteq> ptr - unit_size"
  shows "\<exists>m'. deallocate sizeof_T this ptr n_obj m = Some (Inr (), m') \<and>
           free_size_op this m' =
             Inr (free_size a + size_of m (ptr - unit_size) * unit_size)"
  using assms
  by (simp add: deallocate_def merge_forward_def merge_backward_def free_size_op_def Let_def)

lemma forward_merge_counts_neighbour:
  assumes "d_allocator_info_p this \<noteq> 0"
    and "info_at m (d_allocator_info_p this) = Some a"
    and "ptr \<noteq> 0" and "in_bounds sizeof_T a ptr n_obj"
    and "locate m (ptr - unit_size) (free_list a) = Some (Inr p)"
    and "ptr - unit_size + size_of m (ptr - unit_size) * unit_size = next_of m p"
    and "p \<noteq> ptr - unit_size"
  shows "\<exists>m'. deallocate sizeof_T this ptr n_obj m = Some (Inr (), m') \<and>
           free_size_op this m' =
             Inr (free_size a +
                  (size_of m (ptr - unit_size) + size_of m (next_of m p)) * unit_size)"
  using assms
  by (simp add: deallocate_def merge_forward_def merge_backward_def free_size_op_def Let_def)

text \<open>
  C1. The specification asks that the free-byte count plus the sizes of the live
  allocations always equals the usable capacity, and that a deallocation gives back
  what the matching allocation took. The code does not do that when the freed block is
  merged with the free block behind it: \<^verbatim>\<open>deallocate\<close> first adds the neighbour's size
  to \<^verbatim>\<open>b->d.size\<close> and then adds \<^verbatim>\<open>b->d.size * unit_size\<close> to the free-byte count, so
  the neighbour is counted twice. Two blocks of 64 bytes, freed in the order of their
  allocation: the count goes 3992, 3928, 3864, 3928 and then 4056, with nothing
  allocated.
\<close>

theorem free_in_allocation_order_loses_conservation:
  "free_in_allocation_order = Some (Inr 3992, Inr 3928, Inr 3864, Inr 3928, Inr 4056)"
  by code_simp

text \<open>
  C4. Three adjacent blocks of equal size, A at 8104, B at 8040 and C at 7976, freed in
  the order B, A, C: \<^verbatim>\<open>unified()\<close> is true afterwards, but \<^verbatim>\<open>free_size()\<close> reports 4120
  where the arena started with 3992, because the deallocation of C merges forward with
  the free block made of B and A and counts their 128 bytes again.
\<close>

theorem free_B_A_C_inflates_free_size:
  "free_B_A_C = Some (8104, 8040, 7976, Inr 3992, Inr 4120, Inr True)"
  by code_simp

section \<open>Exhaustion\<close>

text \<open>
  A request that exceeds the free-byte count is answered with null, and nothing is
  written, as long as rounding the request up to whole blocks does not wrap around.
\<close>

lemma allocate_b_exhausted:
  assumes "d_allocator_info_p this \<noteq> 0"
    and "info_at m (d_allocator_info_p this) = Some a"
    and "static_memory_map a \<noteq> 0"
    and "free_size a < n_bytes"
    and "unat n_bytes + 63 < 2 ^ 64"
  shows "allocate_b this n_bytes m = Some (Inr 0, m)"
proof -
  define n where "n = (n_bytes + unit_size - 1) div unit_size + 1"
  have nz: "n_bytes \<noteq> 0" using assms(4) by auto
  have "unat (n_bytes + unit_size - 1) = unat n_bytes + 31"
    using assms(5) by (simp add: round_up_unat)
  then have n_nat: "unat n = (unat n_bytes + 31) div 32 + 1"
    unfolding n_def by (simp add: n_blocks_unat)
  then have "unat n * 32 < 2 ^ 64" using assms(5) by simp
  then have "unat (n * unit_size) = unat n * 32" by (rule unat_times_unit_size)
  then have "unat n_bytes < unat (n * unit_size)" using n_nat by simp
  then have "free_size a < n * unit_size"
    using assms(4) by (simp add: word_less_nat_alt)
  then show ?thesis
    using assms(1-3) nz by (simp add: allocate_b_def Let_def n_def)
qed

text \<open>
  C5. For the largest requests the block count wraps: \<^verbatim>\<open>n_bytes + unit_size - 1\<close> is
  computed in \<^verbatim>\<open>size_t\<close>, so \<^verbatim>\<open>allocate_b(SIZE_MAX)\<close> asks for one block. On the fresh
  arena, whose free-byte count is 3992, it builds the free list (the head goes from null
  to \<open>0x1028\<close>), returns the non-null pointer 8136 and lowers the count to 3960.
\<close>

theorem allocate_SIZE_MAX_returns_block:
  "allocate_SIZE_MAX = Some (Inr 3992, Inr 8136, Inr 3960, Some 0, Some 0x1028)"
  by code_simp

section \<open>The bounds check of deallocate\<close>

text \<open>
  A null pointer, or an object range that does not lie within the buffer, is rejected
  with \<^verbatim>\<open>invalid_argument\<close> before anything is written, as long as neither the byte
  count nor the end address wraps around.
\<close>

lemma deallocate_out_of_bounds:
  assumes "info_at m (d_allocator_info_p this) = Some a"
    and "unat (static_memory_map a) + unat (capacity a) < 2 ^ 64"
    and "unat ptr + unat n_obj * unat sizeof_T < 2 ^ 64"
    and "ptr = 0 \<or>
         \<not> (unat (static_memory_map a) < unat ptr \<and>
            unat ptr + unat n_obj * unat sizeof_T
              \<le> unat (static_memory_map a) + unat (capacity a))"
  shows "\<exists>msg. deallocate sizeof_T this ptr n_obj m = Some (Inl (Invalid_Argument msg), m)"
proof (cases "ptr = 0")
  case True
  then show ?thesis by (simp add: deallocate_def)
next
  case False
  have e: "unat (static_memory_map a + capacity a) =
             unat (static_memory_map a) + unat (capacity a)"
    using assms(2) by (rule unat_add_no_wrap)
  have "unat n_obj * unat sizeof_T < 2 ^ LENGTH(64)" using assms(3) by simp
  then have p: "unat (n_obj * sizeof_T) = unat n_obj * unat sizeof_T"
    by (rule iffD1 [OF unat_mult_lem])
  then have "unat ptr + unat (n_obj * sizeof_T) < 2 ^ 64" using assms(3) by simp
  then have "unat (ptr + n_obj * sizeof_T) = unat ptr + unat (n_obj * sizeof_T)"
    by (rule unat_add_no_wrap)
  then have "\<not> in_bounds sizeof_T a ptr n_obj"
    using assms(4) False e p
    by (simp add: in_bounds_def Let_def word_less_nat_alt word_le_nat_alt)
  then show ?thesis using assms(1) False by (simp add: deallocate_def)
qed

text \<open>
  C6. The byte count \<^verbatim>\<open>n_obj * sizeof(T)\<close> is a \<^verbatim>\<open>size_t\<close> product. With
  \<^verbatim>\<open>n_obj = 2^62\<close> and \<^verbatim>\<open>sizeof(T) = 4\<close> it is 0, the end of the range equals the
  pointer and the check passes, although the range the arguments describe ends far
  beyond the buffer: the call returns normally and the block is given back to the free
  list (the free-byte count goes from 3928 to 3992).
\<close>

theorem deallocate_wrapped_count_accepted:
  "deallocate_wrapped_count = Some (8104, Inr (), Inr 3928, Inr 3992) \<and>
   unat (8104 :: addr) + unat (0x4000000000000000 :: size_t) * unat (4 :: size_t)
     > unat (0x1000 :: addr) + unat (4096 :: size_t)"
proof
  show "deallocate_wrapped_count = Some (8104, Inr (), Inr 3928, Inr 3992)"
    by code_simp
  show "unat (8104 :: addr) + unat (0x4000000000000000 :: size_t) * unat (4 :: size_t)
     > unat (0x1000 :: addr) + unat (4096 :: size_t)"
    by simp
qed

section \<open>unified\<close>

text \<open>
  On an uninitialised allocator \<^verbatim>\<open>unified()\<close> never answers true; on an initialised one
  it answers whether two steps along the list lead back to the head.
\<close>

lemma unified_uninitialized:
  assumes "d_allocator_info_p this = 0 \<or>
           info_at m (d_allocator_info_p this) = None \<or>
           (\<exists>a. info_at m (d_allocator_info_p this) = Some a \<and>
                (static_memory_map a = 0 \<or> free_list a = 0))"
  shows "unified this m \<noteq> Inr True"
  using assms by (auto simp: unified_def split: if_splits)

lemma unified_initialized:
  assumes "d_allocator_info_p this \<noteq> 0"
    and "info_at m (d_allocator_info_p this) = Some a"
    and "static_memory_map a \<noteq> 0" and "free_list a \<noteq> 0"
    and "next_of m (free_list a) \<noteq> 0"
  shows "unified this m = Inr (next_of m (next_of m (free_list a)) = free_list a)"
  using assms by (simp add: unified_def Let_def)

text \<open>
  C7. Two steps lead back to the head also when the list has the sentinel as its only
  node. After \<^verbatim>\<open>allocate_b(3936)\<close> has taken the whole free block (124 units), the
  sentinel at \<open>0x1028\<close> is its own successor, 3936 bytes are allocated at 4200, 24 bytes
  are counted free, and \<^verbatim>\<open>unified()\<close> returns true without any real block in the list.
\<close>

theorem unified_when_exhausted_is_true:
  "unified_when_exhausted = Some (4200, Inr True, Inr 24, Some 0x1028, 0x1028)"
  by code_simp

section \<open>Reference counting of the shared region\<close>

text \<open>
  The count is an \<^verbatim>\<open>unsigned int\<close>. Adding 1 raises its value by one unless it is
  \<open>2^32 - 1\<close>, and subtracting 1 lowers it by one unless it is 0.
\<close>

lemma ref_count_increment_nat:
  fixes c :: "32 word"
  assumes "unat c < 2 ^ 32 - 1"
  shows "unat (c + 1) = unat c + 1"
  using assms unat_add_lem [of c 1] by simp

lemma ref_count_decrement_nat:
  fixes c :: "32 word"
  assumes "c \<noteq> 0"
  shows "unat (c - 1) = unat c - 1"
  using assms by (simp add: unat_minus_one)

lemma mapped_set_shared_info [simp]:
  "mapped (set_shared_info w p i) = (mapped w)(p \<mapsto> i)"
  by (simp add: set_shared_info_def)

lemma mapped_log_call [simp]: "mapped (log_call c w) = mapped w"
  by (simp add: log_call_def)

lemma syscalls_log_call [simp]: "syscalls (log_call c w) = syscalls w @ [c]"
  by (simp add: log_call_def)

lemma syscalls_set_shared_info [simp]: "syscalls (set_shared_info w p i) = syscalls w"
  by (simp add: set_shared_info_def)

lemma shm_objects_log_call [simp]: "shm_objects (log_call c w) = shm_objects w"
  by (simp add: log_call_def)

lemma shm_objects_set_shared_info [simp]: "shm_objects (set_shared_info w p i) = shm_objects w"
  by (simp add: set_shared_info_def)

lemma Shared_Allocator_copy_live:
  assumes "mapped w (d_shared_map_info_p origin) = Some i" and "sem i = Some (Suc v)"
  shows "\<exists>w'. Shared_Allocator_copy origin w = Some (Inr origin, w') \<and>
           mapped w' = (mapped w)(d_shared_map_info_p origin \<mapsto> i\<lparr>ref_count := ref_count i + 1\<rparr>) \<and>
           shm_objects w' = shm_objects w \<and>
           syscalls w' = syscalls w @ [Sem_Wait, Sem_Post]"
proof -
  have eq: "i\<lparr>ref_count := ref_count i + 1, sem := Some (Suc v)\<rparr> =
        i\<lparr>ref_count := ref_count i + 1\<rparr>"
    using assms(2) by simp
  show ?thesis
    using assms by (simp add: Shared_Allocator_copy_def take_sem_def drop_sem_def Let_def eq)
qed

lemma Shared_Allocator_copy_blocked:
  assumes "mapped w (d_shared_map_info_p origin) = Some i" and "sem i = Some 0"
  shows "Shared_Allocator_copy origin w = None"
  using assms by (simp add: Shared_Allocator_copy_def take_sem_def)

lemma Shared_Allocator_copy_unmapped:
  assumes "mapped w (d_shared_map_info_p origin) = None"
  shows "Shared_Allocator_copy origin w = Some (Inl Segmentation_Fault, w)"
  using assms by (simp add: Shared_Allocator_copy_def take_sem_def)

lemma Shared_Allocator_destroy_unmapped:
  assumes "mapped w (d_shared_map_info_p this) = None"
  shows "Shared_Allocator_destroy this w = Some (Inl Segmentation_Fault, w)"
  using assms by (simp add: Shared_Allocator_destroy_def take_sem_def)

lemma Shared_Allocator_destroy_keep:
  assumes "mapped w (d_shared_map_info_p this) = Some i" and "sem i = Some (Suc v)"
    and "ref_count i \<noteq> 1"
  shows "\<exists>w'. Shared_Allocator_destroy this w = Some (Inr (), w') \<and>
           mapped w' = (mapped w)(d_shared_map_info_p this \<mapsto> i\<lparr>ref_count := ref_count i - 1\<rparr>) \<and>
           shm_objects w' = shm_objects w \<and>
           syscalls w' = syscalls w @ [Sem_Wait, Sem_Post]"
proof -
  have eq: "i\<lparr>ref_count := ref_count i - 1, sem := Some (Suc v)\<rparr> =
        i\<lparr>ref_count := ref_count i - 1\<rparr>"
    using assms(2) by simp
  have "ref_count i - 1 \<noteq> 0" using assms(3) by simp
  then show ?thesis
    using assms by (simp add: Shared_Allocator_destroy_def take_sem_def drop_sem_def Let_def eq)
qed

lemma Shared_Allocator_destroy_last:
  assumes "mapped w (d_shared_map_info_p this) = Some i" and "sem i = Some (Suc v)"
    and "ref_count i = 1" and "shm_map_name i \<in> shm_objects w"
  shows "\<exists>w'. Shared_Allocator_destroy this w = Some (Inr (), w') \<and>
           mapped w' = (mapped w)(d_shared_map_info_p this := None) \<and>
           shm_objects w' = shm_objects w - {shm_map_name i} \<and>
           syscalls w' = syscalls w @ [Sem_Wait, Sem_Post, Sem_Destroy,
             Munmap (d_shared_map_info_p this) (shm_map_size i + sizeof_shared_map_info_t),
             Shm_Unlink (shm_map_name i)]"
  using assms by (simp add: Shared_Allocator_destroy_def take_sem_def drop_sem_def Let_def)

lemma lifecycle_unmapped:
  assumes "mapped w (d_shared_map_info_p h) = None"
  shows "lifecycle h ops w = Some w"
  using assms
proof (induction ops)
  case Nil
  then show ?case by simp
next
  case (Cons op ops)
  then show ?case
    by (cases op)
      (simp_all add: Shared_Allocator_copy_unmapped Shared_Allocator_destroy_unmapped
        Shared_Allocator_move_assign_def)
qed

lemma region_inv_step:
  assumes inv: "region_inv L (d_shared_map_info_p h) name sz w"
  shows "\<exists>w'. lifecycle h [op] w = Some w' \<and> region_inv L (d_shared_map_info_p h) name sz w'"
proof (cases "mapped w (d_shared_map_info_p h)")
  case None
  then show ?thesis using inv lifecycle_unmapped [OF None, of "[op]"] by simp
next
  case (Some i)
  with inv have s: "sem i = Some (Suc 0)" by (simp add: region_inv_def)
  show ?thesis
  proof (cases op)
    case Copy_Construct
    from Shared_Allocator_copy_live [OF Some s] obtain w' where
      "Shared_Allocator_copy h w = Some (Inr h, w')"
      "mapped w' = (mapped w)(d_shared_map_info_p h \<mapsto> i\<lparr>ref_count := ref_count i + 1\<rparr>)"
      "shm_objects w' = shm_objects w" "syscalls w' = syscalls w @ [Sem_Wait, Sem_Post]"
      by blast
    then show ?thesis using inv Some Copy_Construct by (simp add: region_inv_def)
  next
    case Move_Assign
    then show ?thesis using inv by (simp add: Shared_Allocator_move_assign_def)
  next
    case Destroy
    show ?thesis
    proof (cases "ref_count i = 1")
      case True
      have "shm_map_name i \<in> shm_objects w" using inv Some by (simp add: region_inv_def)
      from Shared_Allocator_destroy_last [OF Some s True this] obtain w' where
        "Shared_Allocator_destroy h w = Some (Inr (), w')"
        "mapped w' = (mapped w)(d_shared_map_info_p h := None)"
        "shm_objects w' = shm_objects w - {shm_map_name i}"
        "syscalls w' = syscalls w @ [Sem_Wait, Sem_Post, Sem_Destroy,
           Munmap (d_shared_map_info_p h) (shm_map_size i + sizeof_shared_map_info_t),
           Shm_Unlink (shm_map_name i)]"
        by blast
      then show ?thesis using inv Some Destroy by (simp add: region_inv_def)
    next
      case False
      from Shared_Allocator_destroy_keep [OF Some s False] obtain w' where
        "Shared_Allocator_destroy h w = Some (Inr (), w')"
        "mapped w' = (mapped w)(d_shared_map_info_p h \<mapsto> i\<lparr>ref_count := ref_count i - 1\<rparr>)"
        "shm_objects w' = shm_objects w" "syscalls w' = syscalls w @ [Sem_Wait, Sem_Post]"
        by blast
      then show ?thesis using inv Some Destroy by (simp add: region_inv_def)
    qed
  qed
qed

lemma lifecycle_Cons:
  "lifecycle h (op # ops) w =
     (case lifecycle h [op] w of None \<Rightarrow> None | Some w' \<Rightarrow> lifecycle h ops w')"
  by (cases op) (simp_all split: option.splits prod.splits)

lemma region_inv_lifecycle:
  assumes "region_inv L (d_shared_map_info_p h) name sz w"
  shows "\<exists>w'. lifecycle h ops w = Some w' \<and> region_inv L (d_shared_map_info_p h) name sz w'"
  using assms
proof (induction ops arbitrary: w)
  case Nil
  then show ?case by simp
next
  case (Cons op ops)
  from region_inv_step [OF Cons.prems, of op] obtain w1 where
    w1: "lifecycle h [op] w = Some w1" "region_inv L (d_shared_map_info_p h) name sz w1"
    by blast
  from Cons.IH [OF w1(2)] show ?case
    using w1(1) by (subst lifecycle_Cons) simp
qed

lemma lifecycle_count:
  assumes "region_inv L (d_shared_map_info_p h) name sz w"
    and "lifecycle h ops w = Some w'"
    and "mapped w (d_shared_map_info_p h) = Some i"
    and "mapped w' (d_shared_map_info_p h) = Some i'"
  shows "ref_count i' =
           ref_count i + of_nat (count_list ops Copy_Construct) - of_nat (count_list ops Destroy)"
  using assms
proof (induction ops arbitrary: w i)
  case Nil
  then show ?case by simp
next
  case (Cons op ops)
  from Cons.prems(1,3) have s: "sem i = Some (Suc 0)" by (simp add: region_inv_def)
  from region_inv_step [OF Cons.prems(1), of op] obtain w1 where
    w1: "lifecycle h [op] w = Some w1" "region_inv L (d_shared_map_info_p h) name sz w1"
    by blast
  have rest: "lifecycle h ops w1 = Some w'"
    using Cons.prems(2) w1(1) by (subst (asm) lifecycle_Cons) simp
  have m1: "mapped w1 (d_shared_map_info_p h) \<noteq> None"
  proof
    assume "mapped w1 (d_shared_map_info_p h) = None"
    from lifecycle_unmapped [OF this, of ops] rest this Cons.prems(4) show False by simp
  qed
  then obtain i1 where i1: "mapped w1 (d_shared_map_info_p h) = Some i1" by auto
  from Cons.IH [OF w1(2) rest i1 Cons.prems(4)]
  have IH: "ref_count i' =
    ref_count i1 + of_nat (count_list ops Copy_Construct) - of_nat (count_list ops Destroy)" .
  show ?case
  proof (cases op)
    case Copy_Construct
    from Shared_Allocator_copy_live [OF Cons.prems(3) s] obtain w2 where
      "Shared_Allocator_copy h w = Some (Inr h, w2)"
      "mapped w2 = (mapped w)(d_shared_map_info_p h \<mapsto> i\<lparr>ref_count := ref_count i + 1\<rparr>)"
      by blast
    then have "ref_count i1 = ref_count i + 1" using w1(1) i1 Copy_Construct by auto
    then show ?thesis using IH Copy_Construct by simp
  next
    case Move_Assign
    then have "i1 = i" using w1(1) i1 Cons.prems(3) by (simp add: Shared_Allocator_move_assign_def)
    then show ?thesis using IH Move_Assign by simp
  next
    case Destroy
    have ne: "ref_count i \<noteq> 1"
    proof
      assume one: "ref_count i = 1"
      have "shm_map_name i \<in> shm_objects w" using Cons.prems(1,3) by (simp add: region_inv_def)
      from Shared_Allocator_destroy_last [OF Cons.prems(3) s one this] obtain w2 where
        "Shared_Allocator_destroy h w = Some (Inr (), w2)"
        "mapped w2 = (mapped w)(d_shared_map_info_p h := None)"
        by blast
      then show False using w1(1) i1 Destroy by simp
    qed
    from Shared_Allocator_destroy_keep [OF Cons.prems(3) s ne] obtain w2 where
      "Shared_Allocator_destroy h w = Some (Inr (), w2)"
      "mapped w2 = (mapped w)(d_shared_map_info_p h \<mapsto> i\<lparr>ref_count := ref_count i - 1\<rparr>)"
      by blast
    then have "ref_count i1 = ref_count i - 1" using w1(1) i1 Destroy by auto
    then show ?thesis using IH Destroy by simp
  qed
qed

lemma Shared_Allocator_constructed:
  assumes "Shared_Allocator env name sz w0 = (Inr this, w)"
  shows "d_shared_map_info_p this = mmap_addr env"
    and "\<exists>i. mapped w (mmap_addr env) = Some i \<and> ref_count i = 1 \<and> sem i = Some 1 \<and>
             shm_map_name i = name \<and> shm_map_size i = sz"
    and "name \<in> shm_objects w"
  using assms
  by (auto simp: Shared_Allocator_def Let_def MAX_SHM_MAP_NAME_SIZE_def
      split: if_splits prod.splits sum.splits)

lemma region_inv_constructed:
  assumes "Shared_Allocator env name sz w0 = (Inr this, w)"
  shows "region_inv (length (syscalls w)) (d_shared_map_info_p this) name sz w"
  using Shared_Allocator_constructed [OF assms] by (auto simp: region_inv_def)

text \<open>
  C2. After a successful construction the reference count is 1. A copy construction
  adds exactly 1 to it, between \<^verbatim>\<open>sem_wait\<close> and \<^verbatim>\<open>sem_post\<close>, and cannot proceed
  while the semaphore is held. Move assignment changes nothing in the world. A
  destruction subtracts exactly 1; it goes on to \<^verbatim>\<open>sem_destroy\<close>, \<^verbatim>\<open>munmap\<close> and
  \<^verbatim>\<open>shm_unlink\<close> if and only if the count was 1, and otherwise leaves the mapping and
  the named object in place. Over every history of copies, move assignments and
  destructions of handles of the region: as long as the region is mapped no teardown
  call has been made, the name is still linked and the count is 1 plus the copies minus
  the destructions (in \<^verbatim>\<open>unsigned int\<close> arithmetic); once it is unmapped the three
  teardown calls have been made exactly once and the name is unlinked.
\<close>

theorem ref_count_lifecycle:
  assumes ctor: "Shared_Allocator env name sz w0 = (Inr this, w1)"
  shows
    "(\<exists>i. mapped w1 (d_shared_map_info_p this) = Some i \<and> ref_count i = 1) \<and>
     (\<forall>(w :: world) (i :: shared_map_info_t) v. mapped w (d_shared_map_info_p this) = Some i \<and> sem i = Some (Suc v) \<longrightarrow>
        (\<exists>w'. Shared_Allocator_copy this w = Some (Inr this, w') \<and>
           mapped w' (d_shared_map_info_p this) = Some (i\<lparr>ref_count := ref_count i + 1\<rparr>) \<and>
           syscalls w' = syscalls w @ [Sem_Wait, Sem_Post])) \<and>
     (\<forall>(w :: world) (i :: shared_map_info_t). mapped w (d_shared_map_info_p this) = Some i \<and> sem i = Some 0 \<longrightarrow>
        Shared_Allocator_copy this w = None) \<and>
     (\<forall>(w :: world) other. snd (Shared_Allocator_move_assign other this w) = w) \<and>
     (\<forall>(w :: world) (i :: shared_map_info_t) v. mapped w (d_shared_map_info_p this) = Some i \<and> sem i = Some (Suc v) \<and>
        shm_map_name i \<in> shm_objects w \<longrightarrow>
        (\<exists>w'. Shared_Allocator_destroy this w = Some (Inr (), w') \<and>
           (if ref_count i = 1
            then mapped w' (d_shared_map_info_p this) = None \<and>
                 shm_objects w' = shm_objects w - {shm_map_name i} \<and>
                 syscalls w' = syscalls w @ [Sem_Wait, Sem_Post, Sem_Destroy,
                   Munmap (d_shared_map_info_p this) (shm_map_size i + sizeof_shared_map_info_t),
                   Shm_Unlink (shm_map_name i)]
            else mapped w' (d_shared_map_info_p this) =
                   Some (i\<lparr>ref_count := ref_count i - 1\<rparr>) \<and>
                 shm_objects w' = shm_objects w \<and>
                 syscalls w' = syscalls w @ [Sem_Wait, Sem_Post]))) \<and>
     (\<forall>ops. \<exists>w'. lifecycle this ops w1 = Some w' \<and>
        (case mapped w' (d_shared_map_info_p this) of
           Some i' \<Rightarrow>
             teardown_calls w1 w' = [] \<and> name \<in> shm_objects w' \<and>
             ref_count i' =
               1 + of_nat (count_list ops Copy_Construct) - of_nat (count_list ops Destroy)
         | None \<Rightarrow>
             teardown_calls w1 w' =
               [Sem_Destroy, Munmap (d_shared_map_info_p this) (sz + sizeof_shared_map_info_t),
                Shm_Unlink name] \<and>
             name \<notin> shm_objects w'))"
proof (intro conjI allI impI)
  from Shared_Allocator_constructed [OF ctor]
  obtain i where i: "mapped w1 (d_shared_map_info_p this) = Some i" "ref_count i = 1"
    by auto
  then show "\<exists>i. mapped w1 (d_shared_map_info_p this) = Some i \<and> ref_count i = 1" by blast
  have inv: "region_inv (length (syscalls w1)) (d_shared_map_info_p this) name sz w1"
    by (rule region_inv_constructed [OF ctor])
  fix ops
  from region_inv_lifecycle [OF inv, of ops] obtain w' where
    w': "lifecycle this ops w1 = Some w'"
      "region_inv (length (syscalls w1)) (d_shared_map_info_p this) name sz w'"
    by blast
  show "\<exists>w'. lifecycle this ops w1 = Some w' \<and>
        (case mapped w' (d_shared_map_info_p this) of
           Some i' \<Rightarrow>
             teardown_calls w1 w' = [] \<and> name \<in> shm_objects w' \<and>
             ref_count i' =
               1 + of_nat (count_list ops Copy_Construct) - of_nat (count_list ops Destroy)
         | None \<Rightarrow>
             teardown_calls w1 w' =
               [Sem_Destroy, Munmap (d_shared_map_info_p this) (sz + sizeof_shared_map_info_t),
                Shm_Unlink name] \<and>
             name \<notin> shm_objects w')"
  proof (cases "mapped w' (d_shared_map_info_p this)")
    case None
    then show ?thesis using w' by (simp add: region_inv_def teardown_calls_def)
  next
    case (Some i')
    from lifecycle_count [OF inv w'(1) i(1) Some] i(2)
    have "ref_count i' =
      1 + of_nat (count_list ops Copy_Construct) - of_nat (count_list ops Destroy)" by simp
    then show ?thesis using w' Some by (simp add: region_inv_def teardown_calls_def)
  qed
next
  fix w :: world and i :: shared_map_info_t and v
  assume "mapped w (d_shared_map_info_p this) = Some i \<and> sem i = Some (Suc v)"
  then show "\<exists>w'. Shared_Allocator_copy this w = Some (Inr this, w') \<and>
           mapped w' (d_shared_map_info_p this) = Some (i\<lparr>ref_count := ref_count i + 1\<rparr>) \<and>
           syscalls w' = syscalls w @ [Sem_Wait, Sem_Post]"
    using Shared_Allocator_copy_live [of w this i v] by auto
next
  fix w :: world and i :: shared_map_info_t
  assume "mapped w (d_shared_map_info_p this) = Some i \<and> sem i = Some 0"
  then show "Shared_Allocator_copy this w = None"
    using Shared_Allocator_copy_blocked [of w this i] by simp
next
  fix w :: world and other
  show "snd (Shared_Allocator_move_assign other this w) = w"
    by (simp add: Shared_Allocator_move_assign_def)
next
  fix w :: world and i :: shared_map_info_t and v
  assume a: "mapped w (d_shared_map_info_p this) = Some i \<and> sem i = Some (Suc v) \<and>
        shm_map_name i \<in> shm_objects w"
  show "\<exists>w'. Shared_Allocator_destroy this w = Some (Inr (), w') \<and>
           (if ref_count i = 1
            then mapped w' (d_shared_map_info_p this) = None \<and>
                 shm_objects w' = shm_objects w - {shm_map_name i} \<and>
                 syscalls w' = syscalls w @ [Sem_Wait, Sem_Post, Sem_Destroy,
                   Munmap (d_shared_map_info_p this) (shm_map_size i + sizeof_shared_map_info_t),
                   Shm_Unlink (shm_map_name i)]
            else mapped w' (d_shared_map_info_p this) =
                   Some (i\<lparr>ref_count := ref_count i - 1\<rparr>) \<and>
                 shm_objects w' = shm_objects w \<and>
                 syscalls w' = syscalls w @ [Sem_Wait, Sem_Post])"
  proof (cases "ref_count i = 1")
    case True
    from a Shared_Allocator_destroy_last [of w this i v, OF _ _ True] obtain w' where
      "Shared_Allocator_destroy this w = Some (Inr (), w')"
      "mapped w' = (mapped w)(d_shared_map_info_p this := None)"
      "shm_objects w' = shm_objects w - {shm_map_name i}"
      "syscalls w' = syscalls w @ [Sem_Wait, Sem_Post, Sem_Destroy,
         Munmap (d_shared_map_info_p this) (shm_map_size i + sizeof_shared_map_info_t),
         Shm_Unlink (shm_map_name i)]"
      by blast
    then show ?thesis using True by simp
  next
    case False
    from a Shared_Allocator_destroy_keep [of w this i v, OF _ _ False] obtain w' where
      "Shared_Allocator_destroy this w = Some (Inr (), w')"
      "mapped w' = (mapped w)(d_shared_map_info_p this \<mapsto> i\<lparr>ref_count := ref_count i - 1\<rparr>)"
      "shm_objects w' = shm_objects w" "syscalls w' = syscalls w @ [Sem_Wait, Sem_Post]"
      by blast
    then show ?thesis using False by simp
  qed
qed

lemma rosmem_constructed:
  "Shared_Allocator main_env ''rosmem'' 4096 boot_world = (Inr rosmem_allocator, rosmem_world)"
  by (simp add: rosmem_world_def Shared_Allocator_def main_env_def boot_world_def Let_def
      MAX_SHM_MAP_NAME_SIZE_def sizeof_shared_map_info_t_def rosmem_allocator_def
      Static_Allocator_def minimum_memory_size_def unit_size_def sizeof_allocator_info_t_def
      log_call_def set_shared_info_def)

theorem ref_count_lifecycle_witness:
  "Shared_Allocator main_env ''rosmem'' 4096 boot_world = (Inr rosmem_allocator, rosmem_world) \<and>
   (\<exists>i. mapped rosmem_world 0x7F0000000000 = Some i \<and> ref_count i = 1) \<and>
   (\<exists>w'. lifecycle rosmem_allocator [Copy_Construct, Copy_Construct, Destroy] rosmem_world
            = Some w' \<and>
      (case mapped w' 0x7F0000000000 of
         Some i' \<Rightarrow> teardown_calls rosmem_world w' = [] \<and> ''rosmem'' \<in> shm_objects w' \<and>
                    ref_count i' = 2
       | None \<Rightarrow> teardown_calls rosmem_world w' =
                    [Sem_Destroy, Munmap 0x7F0000000000 4192, Shm_Unlink ''rosmem''] \<and>
                  ''rosmem'' \<notin> shm_objects w'))"
proof -
  note t = ref_count_lifecycle [OF rosmem_constructed]
  have p: "d_shared_map_info_p rosmem_allocator = 0x7F0000000000"
    by (simp add: rosmem_allocator_def)
  from t have 1: "\<exists>i. mapped rosmem_world 0x7F0000000000 = Some i \<and> ref_count i = 1"
    unfolding p by blast
  from t have "\<forall>ops. \<exists>w'. lifecycle rosmem_allocator ops rosmem_world = Some w' \<and>
        (case mapped w' 0x7F0000000000 of
           Some i' \<Rightarrow>
             teardown_calls rosmem_world w' = [] \<and> ''rosmem'' \<in> shm_objects w' \<and>
             ref_count i' =
               1 + of_nat (count_list ops Copy_Construct) - of_nat (count_list ops Destroy)
         | None \<Rightarrow>
             teardown_calls rosmem_world w' =
               [Sem_Destroy, Munmap 0x7F0000000000 (4096 + sizeof_shared_map_info_t),
                Shm_Unlink ''rosmem''] \<and>
             ''rosmem'' \<notin> shm_objects w')"
    unfolding p by blast
  from this [rule_format, of "[Copy_Construct, Copy_Construct, Destroy]"]
  obtain w' where w':
    "lifecycle rosmem_allocator [Copy_Construct, Copy_Construct, Destroy] rosmem_world = Some w'"
    "case mapped w' 0x7F0000000000 of
       Some i' \<Rightarrow>
         teardown_calls rosmem_world w' = [] \<and> ''rosmem'' \<in> shm_objects w' \<and>
         ref_count i' =
           1 + of_nat (count_list [Copy_Construct, Copy_Construct, Destroy] Copy_Construct)
             - of_nat (count_list [Copy_Construct, Copy_Construct, Destroy] Destroy)
     | None \<Rightarrow>
         teardown_calls rosmem_world w' =
           [Sem_Destroy, Munmap 0x7F0000000000 (4096 + sizeof_shared_map_info_t),
            Shm_Unlink ''rosmem''] \<and>
         ''rosmem'' \<notin> shm_objects w'"
    by blast
  from w'(2) have
    "case mapped w' 0x7F0000000000 of
       Some i' \<Rightarrow> teardown_calls rosmem_world w' = [] \<and> ''rosmem'' \<in> shm_objects w' \<and>
                  ref_count i' = 2
     | None \<Rightarrow> teardown_calls rosmem_world w' =
                  [Sem_Destroy, Munmap 0x7F0000000000 4192, Shm_Unlink ''rosmem''] \<and>
                ''rosmem'' \<notin> shm_objects w'"
    by (cases "mapped w' 0x7F0000000000") (simp_all add: sizeof_shared_map_info_t_def)
  with w'(1) have 2: "\<exists>w'. lifecycle rosmem_allocator [Copy_Construct, Copy_Construct, Destroy] rosmem_world
            = Some w' \<and>
      (case mapped w' 0x7F0000000000 of
         Some i' \<Rightarrow> teardown_calls rosmem_world w' = [] \<and> ''rosmem'' \<in> shm_objects w' \<and>
                    ref_count i' = 2
       | None \<Rightarrow> teardown_calls rosmem_world w' =
                    [Sem_Destroy, Munmap 0x7F0000000000 4192, Shm_Unlink ''rosmem''] \<and>
                  ''rosmem'' \<notin> shm_objects w')"
    by blast
  from rosmem_constructed 1 2 show ?thesis by blast
qed

text \<open>The scenario of the specification, evaluated.\<close>

lemma rosmem_three_handles:
  "\<exists>w'. lifecycle rosmem_allocator [Copy_Construct, Copy_Construct, Destroy] rosmem_world = Some w' \<and>
     map_option ref_count (mapped w' 0x7F0000000000) = Some 2 \<and> ''rosmem'' \<in> shm_objects w' \<and>
     teardown_calls rosmem_world w' = []"
  by (simp add: rosmem_world_def Shared_Allocator_def main_env_def boot_world_def Let_def
      MAX_SHM_MAP_NAME_SIZE_def sizeof_shared_map_info_t_def rosmem_allocator_def
      Static_Allocator_def minimum_memory_size_def unit_size_def sizeof_allocator_info_t_def
      log_call_def set_shared_info_def Shared_Allocator_copy_def Shared_Allocator_destroy_def
      take_sem_def drop_sem_def teardown_calls_def)

lemma rosmem_all_released:
  "\<exists>w'. lifecycle rosmem_allocator [Copy_Construct, Copy_Construct, Destroy, Destroy, Destroy]
           rosmem_world = Some w' \<and>
     mapped w' 0x7F0000000000 = None \<and> ''rosmem'' \<notin> shm_objects w' \<and>
     teardown_calls rosmem_world w' =
       [Sem_Destroy, Munmap 0x7F0000000000 4192, Shm_Unlink ''rosmem'']"
  by (simp add: rosmem_world_def Shared_Allocator_def main_env_def boot_world_def Let_def
      MAX_SHM_MAP_NAME_SIZE_def sizeof_shared_map_info_t_def rosmem_allocator_def
      Static_Allocator_def minimum_memory_size_def unit_size_def sizeof_allocator_info_t_def
      log_call_def set_shared_info_def Shared_Allocator_copy_def Shared_Allocator_destroy_def
      take_sem_def drop_sem_def teardown_calls_def)

end
